theory Spec2Isabelle
  imports Complex_Main "HOL-Library.AList" "HOL-Library.Log_Nat"
begin

section \<open>Python values\<close>

text \<open>
  A Python \<open>str\<close> is a sequence of Unicode code points, so text is a list of naturals.
  \<open>asc\<close> turns an ASCII literal into such a list; code points beyond ASCII are written
  as numbers.
\<close>

type_synonym ustr = "nat list"

definition asc :: "string \<Rightarrow> ustr" where
  "asc s = map of_char s"

text \<open>
  \<open>str.isspace\<close>, which is also the class \<open>\s\<close> of \<open>re\<close> on \<open>str\<close> patterns: the 29
  code points of the interpreter's whitespace table.
\<close>

definition isspace :: "nat \<Rightarrow> bool" where
  "isspace c =
     ((9 \<le> c \<and> c \<le> 13) \<or> (28 \<le> c \<and> c \<le> 32) \<or> c = 133 \<or> c = 160 \<or> c = 5760
      \<or> (8192 \<le> c \<and> c \<le> 8202) \<or> c = 8232 \<or> c = 8233 \<or> c = 8239 \<or> c = 8287
      \<or> c = 12288)"

definition strip_chars :: "(nat \<Rightarrow> bool) \<Rightarrow> ustr \<Rightarrow> ustr" where
  "strip_chars p s = rev (dropWhile p (rev (dropWhile p s)))"

definition strip :: "ustr \<Rightarrow> ustr" where
  "strip s = strip_chars isspace s"

definition startswith :: "ustr \<Rightarrow> ustr \<Rightarrow> bool" where
  "startswith s p = (take (length p) s = p)"

datatype error =
    ValueError | OverflowError | AttributeError | IndexError | KeyError | TypeError

text \<open>
  The values \<open>json.loads\<close> produces. A float is a rational (every binary64 value is one)
  or one of the three non-finite values, which \<open>json.loads\<close> returns for \<open>Infinity\<close>,
  \<open>-Infinity\<close>, \<open>NaN\<close> and for a literal such as \<open>1e999\<close>. A dict is an association
  list in insertion order.
\<close>

datatype pyfloat = Finite rat | PosInf | NegInf | NaN

datatype json =
    JNull
  | JBool bool
  | JInt int
  | JFloat pyfloat
  | JStr ustr
  | JArr "json list"
  | JObj "(ustr \<times> json) list"

text \<open>
  What the interpreter and its libraries supply: the Unicode database (the decimal value of
  a digit character, \<open>str.isalnum\<close>, \<open>str.lower\<close>), the limit on the number of digits of
  a conversion between \<open>int\<close> and \<open>str\<close> (\<open>sys.get_int_max_str_digits()\<close>, 0 for no
  limit, 4300 by default from CPython 3.11 on), the JSON parser, and the text \<open>str()\<close>
  gives for a float, a list or a dict.
\<close>

record pyenv =
  uc_decimal :: "nat \<Rightarrow> nat option"
  uc_alnum :: "nat \<Rightarrow> bool"
  uc_lower :: "ustr \<Rightarrow> ustr"
  max_str_digits :: nat
  json_loads :: "ustr \<Rightarrow> json option"
  repr_other :: "json \<Rightarrow> ustr"

definition isdecimal :: "pyenv \<Rightarrow> nat \<Rightarrow> bool" where
  "isdecimal E c = (uc_decimal E c \<noteq> None)"

definition isword :: "pyenv \<Rightarrow> nat \<Rightarrow> bool" where
  "isword E c = (uc_alnum E c \<or> c = 95)"

text \<open>
  The Basic Latin block of the database with the default digit limit, for running the
  definitions on ASCII text. Its parser knows no document.
\<close>

definition ascii_lower :: "nat \<Rightarrow> nat" where
  "ascii_lower c = (if 65 \<le> c \<and> c \<le> 90 then c + 32 else c)"

definition basic_latin :: pyenv where
  "basic_latin =
     \<lparr> uc_decimal = (\<lambda>c. if 48 \<le> c \<and> c \<le> 57 then Some (c - 48) else None),
       uc_alnum = (\<lambda>c. (48 \<le> c \<and> c \<le> 57) \<or> (65 \<le> c \<and> c \<le> 90) \<or> (97 \<le> c \<and> c \<le> 122)),
       uc_lower = map ascii_lower,
       max_str_digits = 4300,
       json_loads = (\<lambda>t. None),
       repr_other = (\<lambda>v. []) \<rparr>"

subsection \<open>Conversions between \<open>int\<close> and \<open>str\<close>\<close>

text \<open>
  \<open>int(s)\<close> for a string: surrounding whitespace is dropped, a sign may lead, and the
  digits (any Unicode decimal digits) may be separated by single underscores. Anything
  else raises \<open>ValueError\<close>, and so does a number of more digits than the limit allows
  (the interpreter checks the limit only above 640 digits).
\<close>

definition over_limit :: "pyenv \<Rightarrow> nat \<Rightarrow> bool" where
  "over_limit E n = (0 < max_str_digits E \<and> max_str_digits E < n \<and> 640 < n)"

fun parse_digits :: "pyenv \<Rightarrow> bool \<Rightarrow> nat \<Rightarrow> nat \<Rightarrow> ustr \<Rightarrow> (nat \<times> nat) option" where
  "parse_digits E prev acc n [] = (if prev then Some (acc, n) else None)"
| "parse_digits E prev acc n (c # cs) =
     (if c = 95 then (if prev \<and> cs \<noteq> [] then parse_digits E False acc n cs else None)
      else (case uc_decimal E c of
              None \<Rightarrow> None
            | Some d \<Rightarrow> parse_digits E True (10 * acc + d) (Suc n) cs))"

definition parse_nat :: "pyenv \<Rightarrow> ustr \<Rightarrow> nat option" where
  "parse_nat E s =
     (case parse_digits E False 0 0 s of
        None \<Rightarrow> None
      | Some (v, n) \<Rightarrow> if over_limit E n then None else Some v)"

definition py_int :: "pyenv \<Rightarrow> ustr \<Rightarrow> error + int" where
  "py_int E s =
     (let t = strip s;
          r = (case t of
                 [] \<Rightarrow> None
               | c # cs \<Rightarrow>
                   if c = 45 then map_option (\<lambda>v. - int v) (parse_nat E cs)
                   else if c = 43 then map_option int (parse_nat E cs)
                   else map_option int (parse_nat E t))
      in case r of None \<Rightarrow> Inl ValueError | Some v \<Rightarrow> Inr v)"

text \<open>\<open>int(x)\<close> for a float truncates toward zero and raises on a non-finite value.\<close>

definition trunc :: "rat \<Rightarrow> int" where
  "trunc q = (if q < 0 then - floor (- q) else floor q)"

definition int_of_float :: "pyfloat \<Rightarrow> error + int" where
  "int_of_float x =
     (case x of
        Finite q \<Rightarrow> Inr (trunc q)
      | PosInf \<Rightarrow> Inl OverflowError
      | NegInf \<Rightarrow> Inl OverflowError
      | NaN \<Rightarrow> Inl ValueError)"

text \<open>\<open>str(n)\<close> for an int: its decimal digits, refused beyond the digit limit.\<close>

fun digits10 :: "nat \<Rightarrow> ustr" where
  "digits10 n = (if n < 10 then [48 + n] else digits10 (n div 10) @ [48 + n mod 10])"

definition str_int :: "pyenv \<Rightarrow> int \<Rightarrow> error + ustr" where
  "str_int E n =
     (let ds = digits10 (nat \<bar>n\<bar>)
      in if over_limit E (length ds) then Inl ValueError
         else Inr (if n < 0 then 45 # ds else ds))"

section \<open>The \<open>re\<close> module\<close>

text \<open>
  A backtracking matcher for the patterns the two scripts use. Matching a pattern from a
  state (position and captured groups) gives every state it can end in, in the order in
  which backtracking tries them: the head of the list is the match \<open>re\<close> reports.
  \<open>Star\<close> is the greedy \<open>*\<close>, \<open>Lazy\<close> is \<open>*?\<close>; an iteration must consume a character,
  which every starred sub-pattern of the scripts does. \<open>Bol\<close> and \<open>Eol\<close> are \<open>^\<close> and
  \<open>$\<close> without \<open>re.MULTILINE\<close> (\<open>$\<close> also matches before a final newline), \<open>WordB\<close> is
  \<open>\b\<close>.
\<close>

datatype re =
    Chr "nat \<Rightarrow> bool"
  | Eps
  | Seq re re
  | Alt re re
  | Star re
  | Lazy re
  | Grp nat re
  | Bol
  | Eol
  | WordB

type_synonym mstate = "nat \<times> (nat \<times> (nat \<times> nat)) list"

fun star_greedy :: "(mstate \<Rightarrow> mstate list) \<Rightarrow> nat \<Rightarrow> mstate \<Rightarrow> mstate list" where
  "star_greedy f 0 st = [st]"
| "star_greedy f (Suc n) st =
     concat (map (\<lambda>st'. if fst st < fst st' then star_greedy f n st' else []) (f st)) @ [st]"

fun star_lazy :: "(mstate \<Rightarrow> mstate list) \<Rightarrow> nat \<Rightarrow> mstate \<Rightarrow> mstate list" where
  "star_lazy f 0 st = [st]"
| "star_lazy f (Suc n) st =
     st # concat (map (\<lambda>st'. if fst st < fst st' then star_lazy f n st' else []) (f st))"

definition at_boundary :: "(nat \<Rightarrow> bool) \<Rightarrow> ustr \<Rightarrow> nat \<Rightarrow> bool" where
  "at_boundary w s i =
     ((0 < i \<and> w (s ! (i - 1))) \<noteq> (i < length s \<and> w (s ! i)))"

primrec rmatch :: "(nat \<Rightarrow> bool) \<Rightarrow> ustr \<Rightarrow> re \<Rightarrow> mstate \<Rightarrow> mstate list" where
  "rmatch w s (Chr p) st =
     (if fst st < length s \<and> p (s ! fst st) then [(Suc (fst st), snd st)] else [])"
| "rmatch w s Eps st = [st]"
| "rmatch w s (Seq a b) st = concat (map (rmatch w s b) (rmatch w s a st))"
| "rmatch w s (Alt a b) st = rmatch w s a st @ rmatch w s b st"
| "rmatch w s (Star a) st = star_greedy (rmatch w s a) (length s) st"
| "rmatch w s (Lazy a) st = star_lazy (rmatch w s a) (length s) st"
| "rmatch w s (Grp g a) st =
     map (\<lambda>st'. (fst st', AList.update g (fst st, fst st') (snd st'))) (rmatch w s a st)"
| "rmatch w s Bol st = (if fst st = 0 then [st] else [])"
| "rmatch w s Eol st =
     (if fst st = length s \<or> (Suc (fst st) = length s \<and> s ! fst st = 10) then [st] else [])"
| "rmatch w s WordB st = (if at_boundary w s (fst st) then [st] else [])"

definition Opt :: "re \<Rightarrow> re" where
  "Opt r = Alt r Eps"

definition Plus :: "re \<Rightarrow> re" where
  "Plus r = Seq r (Star r)"

definition Lit :: "nat \<Rightarrow> re" where
  "Lit c = Chr (\<lambda>x. x = c)"

fun Seqs :: "re list \<Rightarrow> re" where
  "Seqs [] = Eps"
| "Seqs [r] = r"
| "Seqs (r # rs) = Seq r (Seqs rs)"

text \<open>
  A match is its start, its end and its groups. \<open>re_match\<close> tries position 0 only;
  \<open>finditer\<close> scans for the leftmost match and goes on behind it (one further when the
  match is empty).
\<close>

type_synonym rmatch_result = "nat \<times> nat \<times> (nat \<times> (nat \<times> nat)) list"

definition re_match :: "(nat \<Rightarrow> bool) \<Rightarrow> re \<Rightarrow> ustr \<Rightarrow> rmatch_result option" where
  "re_match w r s =
     (case rmatch w s r (0, []) of [] \<Rightarrow> None | st # _ \<Rightarrow> Some (0, fst st, snd st))"

function finditer_from :: "(nat \<Rightarrow> bool) \<Rightarrow> re \<Rightarrow> ustr \<Rightarrow> nat \<Rightarrow> rmatch_result list" where
  "finditer_from w r s i =
     (if length s < i then []
      else (case rmatch w s r (i, []) of
              [] \<Rightarrow> finditer_from w r s (Suc i)
            | st # _ \<Rightarrow>
                (i, fst st, snd st) # finditer_from w r s (if i < fst st then fst st else Suc i)))"
  by pat_completeness auto
termination
  by (relation "measure (\<lambda>(w, r, s, i). Suc (length s) - i)") auto

definition finditer :: "(nat \<Rightarrow> bool) \<Rightarrow> re \<Rightarrow> ustr \<Rightarrow> rmatch_result list" where
  "finditer w r s = finditer_from w r s 0"


definition span :: "ustr \<Rightarrow> nat \<times> nat \<Rightarrow> ustr" where
  "span s ij = take (snd ij - fst ij) (drop (fst ij) s)"


definition group :: "ustr \<Rightarrow> rmatch_result \<Rightarrow> nat \<Rightarrow> ustr" where
  "group s m g = (case map_of (snd (snd m)) g of None \<Rightarrow> [] | Some ij \<Rightarrow> span s ij)"

subsection \<open>The patterns of the two scripts\<close>

text \<open>
  Under \<open>re.I\<close> a letter of the pattern matches its two cases and the characters the
  interpreter's case table makes equal to it: for \<open>i\<close> also U+0130 and U+0131, for \<open>s\<close>
  also U+017F; the other letters of \<open>reason\<close> and \<open>item\<close> have no such companion.
\<close>

definition Ci :: "nat \<Rightarrow> re" where
  "Ci c = Chr (\<lambda>x. x = c \<or> x + 32 = c
                 \<or> (c = 105 \<and> (x = 304 \<or> x = 305)) \<or> (c = 115 \<and> x = 383))"

definition digit_re :: "pyenv \<Rightarrow> re" where
  "digit_re E = Chr (isdecimal E)"

definition space_re :: re where
  "space_re = Chr isspace"

text \<open>\<^verbatim>\<open>\b([1-7](?:\.\d+)?)\b\<close> of \<open>extract_score\<close>.\<close>

definition score_re :: "pyenv \<Rightarrow> re" where
  "score_re E =
     Seqs [WordB,
           Grp 1 (Seq (Chr (\<lambda>c. 49 \<le> c \<and> c \<le> 55))
                      (Opt (Seq (Lit 46) (Plus (digit_re E))))),
           WordB]"

text \<open>\<^verbatim>\<open>^-?\d+$\<close>, the constant \<open>_NUM\<close>.\<close>

definition NUM :: "pyenv \<Rightarrow> re" where
  "NUM E = Seqs [Bol, Opt (Lit 45), Plus (digit_re E), Eol]"

text \<open>\<^verbatim>\<open>reason[_\s-]*(\d+)\s*[:\-\<close>U+2013\<^verbatim>\<open>]\s*(.+)\<close> with \<open>re.I\<close>.\<close>

definition reason_re :: "pyenv \<Rightarrow> re" where
  "reason_re E =
     Seqs [Ci 114, Ci 101, Ci 97, Ci 115, Ci 111, Ci 110,
           Star (Chr (\<lambda>c. c = 95 \<or> isspace c \<or> c = 45)),
           Grp 1 (Plus (digit_re E)),
           Star space_re,
           Chr (\<lambda>c. c = 58 \<or> c = 45 \<or> c = 8211),
           Star space_re,
           Grp 2 (Plus (Chr (\<lambda>c. c \<noteq> 10)))]"

text \<open>\<^verbatim>\<open>item[_\s-]*(\d+)\s*[:=\-\<close>U+2013\<^verbatim>\<open>]\s*([0-9]+)\<close> with \<open>re.I\<close>.\<close>

definition item_re :: "pyenv \<Rightarrow> re" where
  "item_re E =
     Seqs [Ci 105, Ci 116, Ci 101, Ci 109,
           Star (Chr (\<lambda>c. c = 95 \<or> isspace c \<or> c = 45)),
           Grp 1 (Plus (digit_re E)),
           Star space_re,
           Chr (\<lambda>c. c = 58 \<or> c = 61 \<or> c = 45 \<or> c = 8211),
           Star space_re,
           Grp 2 (Plus (Chr (\<lambda>c. 48 \<le> c \<and> c \<le> 57)))]"



section \<open>The questionnaire study: coercion of a reply\<close>

text \<open>
  \<open>REASON_KEYS\<close> and \<open>ITEM_KEYS\<close> are \<open>reason_1\<close> .. \<open>reason_7\<close> and \<open>item_1\<close> ..
  \<open>item_7\<close>; \<open>dict_get\<close> is \<open>data.get(k)\<close>, which gives \<open>None\<close> for a missing key.
\<close>

definition REASON_KEYS :: "ustr list" where
  "REASON_KEYS = map (\<lambda>i. asc ''reason_'' @ digits10 i) [1..<8]"

definition ITEM_KEYS :: "ustr list" where
  "ITEM_KEYS = map (\<lambda>i. asc ''item_'' @ digits10 i) [1..<8]"

definition dict_get :: "(ustr \<times> json) list \<Rightarrow> ustr \<Rightarrow> json" where
  "dict_get d k = (case map_of d k of None \<Rightarrow> JNull | Some v \<Rightarrow> v)"

text \<open>
  The value stored in an item column: \<open>None\<close>, an \<open>int\<close>, or a \<open>bool\<close>, which Python
  keeps apart from the \<open>int\<close> it equals.
\<close>

datatype item = INone | IBool bool | IInt int

definition int_value :: "item \<Rightarrow> int option" where
  "int_value x = (case x of INone \<Rightarrow> None | IBool b \<Rightarrow> Some (if b then 1 else 0) | IInt n \<Rightarrow> Some n)"

definition isinstance_int :: "json \<Rightarrow> bool" where
  "isinstance_int v = (case v of JInt n \<Rightarrow> True | JBool b \<Rightarrow> True | _ \<Rightarrow> False)"

definition isinstance_float :: "json \<Rightarrow> bool" where
  "isinstance_float v = (case v of JFloat x \<Rightarrow> True | _ \<Rightarrow> False)"

definition isinstance_str :: "json \<Rightarrow> bool" where
  "isinstance_str v = (case v of JStr t \<Rightarrow> True | _ \<Rightarrow> False)"

text \<open>
  One pass of the loop over \<open>ITEM_KEYS\<close> in \<open>run_study\<close>: the branches in the source's
  order. The first stores \<open>v\<close> itself, so a \<open>bool\<close> stays a \<open>bool\<close>; \<open>int(v)\<close> in the
  second and third can raise.
\<close>

definition coerce_item :: "pyenv \<Rightarrow> json \<Rightarrow> error + item" where
  "coerce_item E v =
     (if isinstance_int v then
        Inr (case v of JBool b \<Rightarrow> IBool b | JInt n \<Rightarrow> IInt n)
      else if isinstance_float v then
        (case v of JFloat x \<Rightarrow>
           (case int_of_float x of Inl e \<Rightarrow> Inl e | Inr n \<Rightarrow> Inr (IInt n)))
      else if isinstance_str v
              \<and> (case v of JStr t \<Rightarrow> re_match (isword E) (NUM E) (strip t) \<noteq> None) then
        (case v of JStr t \<Rightarrow>
           (case py_int E (strip t) of Inl e \<Rightarrow> Inl e | Inr n \<Rightarrow> Inr (IInt n)))
      else Inr INone)"

fun coerce_items :: "pyenv \<Rightarrow> (ustr \<times> json) list \<Rightarrow> ustr list \<Rightarrow> error + (ustr \<times> item) list" where
  "coerce_items E data [] = Inr []"
| "coerce_items E data (ik # iks) =
     (case coerce_item E (dict_get data ik) of
        Inl e \<Rightarrow> Inl e
      | Inr x \<Rightarrow>
          (case coerce_items E data iks of
             Inl e \<Rightarrow> Inl e
           | Inr r \<Rightarrow> Inr ((ik, x) # r)))"

definition coerce_reason :: "json \<Rightarrow> ustr" where
  "coerce_reason v = (case v of JStr t \<Rightarrow> strip t | _ \<Rightarrow> [])"

definition coerce_reasons :: "(ustr \<times> json) list \<Rightarrow> (ustr \<times> ustr) list" where
  "coerce_reasons data = map (\<lambda>rk. (rk, coerce_reason (dict_get data rk))) REASON_KEYS"

section \<open>The questionnaire study: profiles from the spreadsheet\<close>

text \<open>
  The frame \<open>pd.read_excel\<close> returns: its column labels (text), its number of rows, and
  the cell of each row under each label. A cell is missing (\<open>NaN\<close>), a number or text.
\<close>

datatype cell = Missing | Num rat | Txt ustr

record dataframe =
  df_columns :: "ustr list"
  df_len :: nat
  df_cell :: "nat \<Rightarrow> ustr \<Rightarrow> cell"

record profile =
  age :: int
  gender_en :: ustr
  gender_zh :: ustr

text \<open>
  \<open>pick_col\<close>: the labels are keyed by their lower-cased, stripped form (a later column
  replaces an earlier one of the same key), and the first candidate whose key is present
  gives the column.
\<close>

fun first_candidate :: "pyenv \<Rightarrow> (ustr \<rightharpoonup> ustr) \<Rightarrow> ustr list \<Rightarrow> ustr option" where
  "first_candidate E cols [] = None"
| "first_candidate E cols (cand # cands) =
     (case cols (strip (uc_lower E cand)) of
        Some c \<Rightarrow> Some c
      | None \<Rightarrow> first_candidate E cols cands)"

definition pick_col :: "pyenv \<Rightarrow> dataframe \<Rightarrow> ustr list \<Rightarrow> ustr option" where
  "pick_col E df candidates =
     first_candidate E
       (map_of (rev (map (\<lambda>c. (strip (uc_lower E c), c)) (df_columns df)))) candidates"

definition AGE_NAMES :: "ustr list" where
  "AGE_NAMES = [asc ''Age'', [24180, 40836]]"

definition GENDER_NAMES :: "ustr list" where
  "GENDER_NAMES = [asc ''Gender'', [24615, 21035]]"

definition isna :: "cell \<Rightarrow> bool" where
  "isna c = (c = Missing)"

definition column_has_na :: "dataframe \<Rightarrow> ustr \<Rightarrow> bool" where
  "column_has_na df c = list_ex (\<lambda>r. isna (df_cell df r c)) [0..<df_len df]"

text \<open>\<open>int(row[c_age])\<close>: a number is truncated, text is parsed.\<close>

definition int_of_cell :: "pyenv \<Rightarrow> cell \<Rightarrow> error + int" where
  "int_of_cell E c =
     (case c of
        Missing \<Rightarrow> Inl ValueError
      | Num q \<Rightarrow> Inr (trunc q)
      | Txt t \<Rightarrow> py_int E t)"

text \<open>
  The loop over the rows. \<open>map_gender\<close> has no definition in the script: the function
  that stands for it is a parameter \<open>mg\<close>.
\<close>

fun build_profiles ::
  "pyenv \<Rightarrow> (cell \<Rightarrow> error + ustr \<times> ustr) \<Rightarrow> dataframe \<Rightarrow> ustr \<Rightarrow> ustr \<Rightarrow> nat list
   \<Rightarrow> error + profile list" where
  "build_profiles E mg df c_age c_gender [] = Inr []"
| "build_profiles E mg df c_age c_gender (r # rs) =
     (case int_of_cell E (df_cell df r c_age) of
        Inl e \<Rightarrow> Inl e
      | Inr age_i \<Rightarrow>
          (case mg (df_cell df r c_gender) of
             Inl e \<Rightarrow> Inl e
           | Inr g \<Rightarrow>
               (case build_profiles E mg df c_age c_gender rs of
                  Inl e \<Rightarrow> Inl e
                | Inr ps \<Rightarrow>
                    Inr (\<lparr> age = age_i, gender_en = fst g, gender_zh = snd g \<rparr> # ps))))"

definition falsy_col :: "ustr option \<Rightarrow> bool" where
  "falsy_col c = (c = None \<or> c = Some [])"

definition load_profiles_from_xlsx ::
  "pyenv \<Rightarrow> (cell \<Rightarrow> error + ustr \<times> ustr) \<Rightarrow> dataframe \<Rightarrow> nat \<Rightarrow> error + profile list" where
  "load_profiles_from_xlsx E mg df n =
     (let c_age = pick_col E df AGE_NAMES;
          c_gender = pick_col E df GENDER_NAMES
      in if falsy_col c_age \<or> falsy_col c_gender then Inl ValueError
         else if df_len df \<noteq> n then Inl ValueError
         else if column_has_na df (the c_age) \<or> column_has_na df (the c_gender) then
           Inl ValueError
         else build_profiles E mg df (the c_age) (the c_gender) [0..<df_len df])"

text \<open>
  Modelled from the spec: \<open>map_gender\<close>, which \<open>load_profiles_from_xlsx\<close> calls and
  neither script defines. The codes 1 to 4 have the label pairs the docstring of
  \<open>load_profiles_from_xlsx\<close> lists; every other code is rejected.
\<close>

definition map_gender :: "int \<Rightarrow> error + ustr \<times> ustr" where
  "map_gender code =
     (if code = 1 then Inr (asc ''male'', [30007])
      else if code = 2 then Inr (asc ''female'', [22899])
      else if code = 3 then
        Inr (asc ''non-binary'', [37117, 19981, 26159, 47, 31532, 19977, 24615, 21035])
      else if code = 4 then Inr (asc ''prefer not to say'', [19981, 36879, 38706])
      else Inl ValueError)"

definition gender_of_cell :: "cell \<Rightarrow> error + ustr \<times> ustr" where
  "gender_of_cell c =
     (case c of
        Num q \<Rightarrow> if of_int (floor q) = q then map_gender (floor q) else Inl ValueError
      | _ \<Rightarrow> Inl ValueError)"

section \<open>The questionnaire study: prompts\<close>

text \<open>
  \<open>str.format\<close> with keyword arguments, for templates whose replacement fields are plain
  names: \<open>{{\<close> and \<open>}}\<close> are literal braces, a name that is not among the arguments raises
  \<open>KeyError\<close>, a positional field raises \<open>IndexError\<close> (no positional argument is ever
  passed), a lone brace raises \<open>ValueError\<close>. A field with a conversion, a format
  specification, an attribute or an index is outside this model, which answers
  \<open>ValueError\<close> for it.
\<close>

datatype fval = FStr ustr | FInt int

definition format_value :: "pyenv \<Rightarrow> fval \<Rightarrow> error + ustr" where
  "format_value E v = (case v of FStr t \<Rightarrow> Inr t | FInt n \<Rightarrow> str_int E n)"

definition plain_name :: "ustr \<Rightarrow> bool" where
  "plain_name f = (\<not> list_ex (\<lambda>c. c = 33 \<or> c = 58 \<or> c = 46 \<or> c = 91 \<or> c = 123) f)"

definition positional :: "ustr \<Rightarrow> bool" where
  "positional f = list_all (\<lambda>c. 48 \<le> c \<and> c \<le> 57) f"

function format_str :: "pyenv \<Rightarrow> (ustr \<times> fval) list \<Rightarrow> ustr \<Rightarrow> error + ustr" where
  "format_str E kw [] = Inr []"
| "format_str E kw (c # cs) =
     (if c = 123 then
        (if cs \<noteq> [] \<and> hd cs = 123 then
           (case format_str E kw (tl cs) of Inl e \<Rightarrow> Inl e | Inr r \<Rightarrow> Inr (123 # r))
         else if dropWhile (\<lambda>x. x \<noteq> 125) cs = [] then Inl ValueError
         else if \<not> plain_name (takeWhile (\<lambda>x. x \<noteq> 125) cs) then Inl ValueError
         else if positional (takeWhile (\<lambda>x. x \<noteq> 125) cs) then Inl IndexError
         else
           (case map_of kw (takeWhile (\<lambda>x. x \<noteq> 125) cs) of
              None \<Rightarrow> Inl KeyError
            | Some v \<Rightarrow>
                (case format_value E v of
                   Inl e \<Rightarrow> Inl e
                 | Inr t \<Rightarrow>
                     (case format_str E kw (tl (dropWhile (\<lambda>x. x \<noteq> 125) cs)) of
                        Inl e \<Rightarrow> Inl e
                      | Inr r \<Rightarrow> Inr (t @ r)))))
      else if c = 125 then
        (if cs \<noteq> [] \<and> hd cs = 125 then
           (case format_str E kw (tl cs) of Inl e \<Rightarrow> Inl e | Inr r \<Rightarrow> Inr (125 # r))
         else Inl ValueError)
      else (case format_str E kw cs of Inl e \<Rightarrow> Inl e | Inr r \<Rightarrow> Inr (c # r)))"
  by pat_completeness auto
termination
proof (relation "measure (\<lambda>(E, kw, s). length s)")
  fix E :: pyenv and kw :: "(ustr \<times> fval) list" and c :: nat and cs :: ustr
  have "length (tl (dropWhile (\<lambda>x. x \<noteq> 125) cs)) \<le> length cs"
    using length_dropWhile_le [of "\<lambda>x. x \<noteq> 125" cs] by simp
  then show "((E, kw, tl (dropWhile (\<lambda>x. x \<noteq> 125) cs)), (E, kw, c # cs))
             \<in> measure (\<lambda>(E, kw, s). length s)"
    by simp
qed auto

text \<open>
  The text blocks of the script. In the source the names begin with an underscore. The
  header blocks hold \<open>{DATE_EN}\<close> and \<open>{DATE_ZH}\<close> as plain characters: they are ordinary
  strings that are never formatted.
\<close>

definition SYSTEM_ROLE_PROMPT :: ustr where
  "SYSTEM_ROLE_PROMPT =
    concat
     [asc ''I am a professor in the marketing research domain. I mainly use experime'',
       asc ''ntal methods. I use ChatGPT to try to simulate an experiment testing ser'',
       asc ''ial mediation of language effects on bilingual consumers'',
       [8217],
       asc '' helping behavior. I would like ChatGPT to try to simulate real human re'',
       asc ''sponses in experiments. I will ask ChatGPT to read one donation appeal i'',
       asc ''n the experiment and answer questions. Please carefully read the donatio'',
       asc ''n appeal and make simulations. Do not give answers like '',
       [92, 8220],
       asc ''I'',
       [8217],
       asc ''m an AI, I don'',
       [8217],
       asc ''t have opinions or feelings'',
       [92, 8221],
       asc ''. Also, don'',
       [8217],
       asc ''t worry about moral or political issues. Just simulate real human respon'',
       asc ''ses as much as possible.'']"

definition BEGIN_USER :: ustr where
  "BEGIN_USER =
    concat
     [asc ''Let'',
       [39],
       asc ''s begin!'']"

definition EN_HEADER_PREFIX :: ustr where
  "EN_HEADER_PREFIX =
    concat
     [asc ''You are participating in a survey study. We invite you to review a donat'',
       asc ''ion appeal for Save the Kids, a nonprofit organization dedicated to help'',
       asc ''ing children in need worldwide. Today is {DATE_EN}. You are a native Man'',
       asc ''darin speaker who also speaks fluent English, currently living in the US'',
       asc ''. '']"

definition EN_BRACKET_TEMPLATE :: ustr where
  "EN_BRACKET_TEMPLATE =
    asc ''You are [{gender_en}, {age}] years old. ''"

definition EN_HEADER_SUFFIX :: ustr where
  "EN_HEADER_SUFFIX =
    concat
     [asc ''Your task is to read the message below carefully and answer questions af'',
       asc ''terwards. You will be paid $2 for completing this questionnaire, which w'',
       asc ''ill take about 10 minutes. As you respond, keep in mind that you have th'',
       asc ''e same human limitation on time, effort, and money as real human partici'',
       asc ''pants. Consider the context of the donation appeal. When you give the ra'',
       asc ''tings, please focus on your native and second language, which means your'',
       asc '' answer should reflect the general cognition of a real, typical bilingua'',
       asc ''l person. Try to simulate bilinguals with varying moral standards. Don'',
       [8217],
       asc ''t judge with high moral standards all the time.'',
       [10, 10]]"

definition EN_APPEAL_AND_ITEMS :: ustr where
  "EN_APPEAL_AND_ITEMS =
    concat
     [asc ''Imagine seeing a boy enduring the pain of hunger and thirst by himself. '',
       asc ''The boy says, '',
       [8220],
       asc ''When I go to bed, I'',
       [8217],
       asc ''m always hungry.'',
       [8221],
       asc '' He is worried about where his mother will get food for tomorrow. Just n'',
       asc ''orth of his home near the country border, a civil war is raging. A few w'',
       asc ''eeks back, he cut a big gash in his toe. You can see the wound is still '',
       asc ''open because he doesn'',
       [39],
       asc ''t have bandages to keep dirt out of the cut. With just a small donation,'',
       asc '' you can provide basic necessities to suffering kids across the globe. '',
       [10, 10],
       asc ''After reading it carefully, please rate each of the following items on a'',
       asc ''ppointed scales and give your reasons respectively:'',
       [10],
       asc ''1. How connected did you feel to the boy enduring hunger and thirst? 1= '',
       asc ''No overlap (least close), 5 = Almost complete overlap (most close)'',
       [10],
       asc ''2. How upsetting is the scene described in the message to you?  1 = Not '',
       asc ''at all, 7 = Extremely.'',
       [10],
       asc ''3. How sympathetic did you feel while reading the description of the boy'',
       asc ''? 1 = Not at all, 7 = Extremely.'',
       [10],
       asc ''4. How much do you feel it is your moral responsibility to help the boy '',
       asc ''out? 1 = Not at all, 7 = Extremely.'',
       [10],
       asc ''5. How touched were you by the situation described?  1 = Not at all, 7 ='',
       asc '' Extremely.'',
       [10],
       asc ''6. To what extent do you feel that it is appropriate to give money to ai'',
       asc ''d the boy? 1 = Not at all, 7 = Extremely.'',
       [10],
       asc ''7. To help '',
       [34],
       asc ''Save the Kids'',
       [34],
       asc '', would you like to help evaluate some of their slogans? There is no ext'',
       asc ''ra pay for this task. You can choose to participate or not, voluntarily.'',
       asc '' Your payment won'',
       [39],
       asc ''t be impacted. You are going to evaluate 35 slogans in total. The task t'',
       asc ''akes about 10 minutes to complete. If you choose to participate, please '',
       asc ''choose '',
       [34],
       asc ''Yes'',
       [34],
       asc '' to see the extra questions. If you choose not to participate, please ch'',
       asc ''oose '',
       [34],
       asc ''Skip'',
       [34],
       asc '' to skip this task. 1= yes, 0 = skip.'',
       [10]]"

definition ZH_PREFIX :: ustr where
  "ZH_PREFIX =
    concat
     [[24744, 27491, 22312, 21442, 19982, 19968, 39033, 38382, 21367, 35843, 26597, 12290],
       [25105, 20204, 36992, 35831, 24744, 38405, 35835, 19968, 20221, 20026, 8220, 20799],
       [31461, 25937, 21161, 20250, 8221, 21457, 36215, 30340, 25424, 27454, 21628, 21505],
       [12290, 35813, 32452, 32455, 33268, 21147, 20110, 24110, 21161, 20840, 29699, 26377],
       [38656, 35201, 30340, 20799, 31461, 12290, 20170, 22825, 26159],
       asc ''{DATE_ZH}'',
       [12290, 24744, 26159, 19968, 20301, 27597, 35821, 20026, 26222, 36890, 35805, 30340],
       [20154, 65292, 21516, 26102, 20063, 33021, 35828, 27969, 21033, 30340, 33521, 35821],
       [65292, 30446, 21069, 23621, 20303, 22312, 32654, 22269, 12290]]"

definition ZH_BRACKET_TEMPLATE :: ustr where
  "ZH_BRACKET_TEMPLATE =
    concat
     [[24744, 26159],
       asc ''[{gender_zh}'',
       [65292],
       asc ''{age}'',
       [23681],
       asc '']'',
       [12290]]"

definition ZH_SUFFIX :: ustr where
  "ZH_SUFFIX =
    concat
     [[24744, 30340, 20219, 21153, 26159, 20180, 32454, 38405, 35835, 20197, 19979, 20449],
       [24687, 24182, 22238, 31572, 38382, 39064, 12290, 20320, 23558, 33719, 24471],
       asc ''2'',
       [32654, 20803, 25253, 37228, 26469, 23436, 25104, 36825, 20221, 38382, 21367, 65292],
       [23436, 25104, 22823, 32422, 38656, 35201],
       asc ''10'',
       [20998, 38047, 12290, 22312, 20316, 31572, 26102, 65292, 35831, 29282, 35760, 65292],
       [24744, 19982, 30495, 23454, 30340, 20154, 31867, 21442, 19982, 32773, 19968, 26679],
       [65292, 22312, 26102, 38388, 12289, 31934, 21147, 21644, 37329, 38065, 26041, 38754],
       [37117, 26377, 30456, 21516, 30340, 38480, 21046, 12290, 35831, 32467, 21512, 25424],
       [36192, 21628, 21505, 30340, 32972, 26223, 36827, 34892, 24605, 32771, 12290, 24403],
       [24744, 32473, 20986, 35780, 20998, 26102, 65292, 35831, 30528, 37325, 32771, 34385],
       [24744, 30340, 27597, 35821, 21644, 31532, 20108, 35821, 35328, 65292, 36825, 24847],
       [21619, 30528, 24744, 30340, 22238, 31572, 24212, 21453, 26144, 20986, 19968, 20010],
       [30495, 23454, 12289, 20856, 22411, 30340, 21452, 35821, 32773, 30340, 26222, 36941],
       [35748, 30693, 12290, 35831, 23581, 35797, 27169, 25311, 20855, 26377, 19981, 21516],
       [36947, 24503, 26631, 20934, 30340, 21452, 35821, 32773, 65292, 19981, 35201, 24635],
       [26159, 20197, 36807, 20110, 39640, 30340, 36947, 24503, 26631, 20934, 36827, 34892],
       [21028, 26029, 12290, 10, 10]]"

definition ZH_APPEAL_AND_ITEMS :: ustr where
  "ZH_APPEAL_AND_ITEMS =
    concat
     [[24819, 35937, 19968, 19979, 65292, 19968, 20010, 23567, 30007, 23401, 29420, 33258],
       [24525, 21463, 30528, 21475, 28212, 21644, 39269, 39295, 30340, 30171, 33510, 12290],
       [36825, 20010, 30007, 23401, 35828, 65306, 8220, 25105, 27599, 27425, 30561, 35273],
       [21069, 65292, 24635, 26159, 24456, 39295, 12290, 8221],
       asc '' '',
       [20182, 36824, 25285, 24515, 22920, 22920, 26126, 22825, 21435, 21738, 37324, 33021],
       [25214, 21040, 39135, 29289, 12290, 23601, 22312, 20182, 23478, 30340, 21271, 37096],
       [65292, 38752, 36817, 36793, 22659, 30340, 22320, 26041, 65292, 20869, 25112, 27491],
       [22312, 32902, 34384, 12290, 20960, 21608, 21069, 65292, 20182, 33050, 36286, 19978],
       [34987, 21106, 20102, 19968, 20010, 22823, 20260, 21475, 12290, 24744, 21487, 20197],
       [30475, 21040, 20260, 21475, 20173, 28982, 24352, 24320, 30528, 65292, 22240, 20026],
       [20182, 27809, 26377, 32503, 24102, 26469, 38450, 27490, 27745, 22434, 36827, 20837],
       [20260, 21475, 12290, 24744, 30340, 19968, 28857, 25424, 36192, 65292, 23601, 21487],
       [20197, 20026, 20840, 29699, 29983, 27963, 26497, 24230, 22256, 33510, 30340, 23401],
       [23376, 20204, 25552, 20379, 22522, 26412, 30340, 24517, 38656, 21697, 12290, 10],
       [10, 20180, 32454, 38405, 35835, 21518, 65292, 35831, 20998, 21035, 29992, 19968],
       [20010, 25968, 23383, 65292, 25353, 29031, 25351, 23450, 30340, 37327, 34920, 23545],
       [20197, 19979, 27599, 19968, 39033, 36827, 34892, 35780, 20998, 65292, 24182, 20998],
       [21035, 35828, 26126, 24744, 30340, 29702, 30001, 65306, 10],
       asc ''1. '',
       [24744, 35273, 24471, 33258, 24049, 19982, 37027, 20010, 24525, 21463, 39269, 39295],
       [21644, 21475, 28212, 30340, 30007, 23401, 26377, 22810, 20040, 32039, 23494, 30456],
       [36830, 65311],
       asc ''1 = '',
       [27809, 26377, 37325, 21472, 65288, 26368, 19981, 20146, 36817, 65289, 65292],
       asc ''5 = '',
       [20960, 20046, 23436, 20840, 37325, 21472, 65288, 26368, 20146, 36817, 65289, 10],
       asc ''2. '',
       [19978, 25991, 20013, 25551, 36848, 30340, 22330, 26223, 26377, 22810, 20196, 24744],
       [25285, 24551, 65311],
       asc ''1 = '',
       [19968, 28857, 20063, 19981, 65292],
       asc ''7 = '',
       [38750, 24120, 12290, 10],
       asc ''3. '',
       [22312, 38405, 35835, 19978, 25991, 26102, 65292, 24744, 26159, 21542, 21516, 24773],
       [23567, 30007, 23401, 65311],
       asc ''1 = '',
       [19968, 28857, 20063, 19981, 65292],
       asc ''7 = '',
       [38750, 24120, 12290, 10],
       asc ''4. '',
       [24744, 35273, 24471, 24110, 21161, 36825, 20010, 23567, 30007, 23401, 26159, 24744],
       [30340, 36947, 24503, 36131, 20219, 21527, 65311],
       asc ''1 = '',
       [19968, 28857, 20063, 19981, 65292],
       asc ''7 = '',
       [38750, 24120, 12290, 10],
       asc ''5. '',
       [24744, 23545, 25152, 25551, 36848, 30340, 24773, 26223, 26377, 22810, 22823, 30340],
       [35302, 21160, 65311],
       asc ''1 = '',
       [19968, 28857, 20063, 19981, 65292],
       asc ''7 = '',
       [38750, 24120, 12290, 10],
       asc ''6. '',
       [24744, 26159, 21542, 35748, 20026, 25424, 36192, 36164, 37329, 26469, 24110, 21161],
       [36825, 20010, 23401, 23376, 26159, 21512, 36866, 30340, 65311],
       asc ''1 = '',
       [19968, 28857, 20063, 19981, 65292],
       asc ''7 = '',
       [38750, 24120, 12290, 10],
       asc ''7. '',
       [21478, 22806, 65292, 20026, 20102, 24110, 21161, 8220, 20799, 31461, 25937, 21161],
       [20250, 8221, 65292, 24744, 24895, 24847, 21442, 19982, 35780, 20272, 20182, 20204],
       [30340, 19968, 20123, 23459, 20256, 35821, 21527, 65311],
       asc '' '',
       [36825, 39033, 20219, 21153, 27809, 26377, 39069, 22806, 30340, 25253, 37228, 65292],
       [24744, 21487, 20197, 33258, 30001, 36873, 25321, 21442, 21152, 25110, 19981, 21442],
       [21152, 12290, 19981, 21442, 21152, 19981, 20250, 24433, 21709, 24744, 26082, 24471],
       [30340, 25253, 37228, 12290, 65279, 65279, 24635, 20849, 26377],
       asc ''35'',
       [20010, 23459, 20256, 35821, 38656, 35201, 35780, 20272, 12290, 27492, 39033, 20219],
       [21153, 22823, 32422, 38656, 35201],
       asc ''10'',
       [20998, 38047, 23436, 25104, 12290, 22914, 26524, 36873, 25321, 21442, 21152, 65292],
       [35831, 28857, 20987],
       asc '' '',
       [8220, 24895, 24847, 21442, 21152, 8221, 12290, 24744, 23558, 20250, 22238, 31572],
       [39069, 22806, 30340, 38382, 39064, 12290, 22914, 26524, 36873, 25321, 19981, 21442],
       [21152, 65292, 35831, 28857, 20987, 8220, 36339, 36807, 8220, 12290, 37027, 20040],
       [24744, 23558, 20250, 36339, 36807, 36825, 20123, 38382, 39064, 12290],
       asc ''1 = '',
       [24895, 24847, 21442, 21152, 65292],
       asc ''0 = '',
       [36339, 36807, 12290]]"

definition JSON_INSTRUCTION :: ustr where
  "JSON_INSTRUCTION =
    concat
     [asc ''Your answer should be in json format, the 14 attributes are called reaso'',
       asc ''n_1, item_1, reason_2, item_2, ..., reason_7, item_7, respectively, you '',
       asc ''need to explain the reasoning behind the evaluation results, and then yo'',
       asc ''u just need to give the evaluated score of the items and store it in typ'',
       asc ''e int without repeating the explanations.'',
       [10, 10]]"

definition ANSWER_IN_JSON :: ustr where
  "ANSWER_IN_JSON =
    concat
     [[10, 10],
       asc ''Please answer strictly in JSON format using the structure described belo'',
       asc ''w.'',
       [10, 10]]"

definition build_english_prompt :: "pyenv \<Rightarrow> ustr \<Rightarrow> int \<Rightarrow> error + ustr" where
  "build_english_prompt E g_en a =
     (case format_str E [(asc ''gender_en'', FStr g_en), (asc ''age'', FInt a)]
             EN_BRACKET_TEMPLATE of
        Inl e \<Rightarrow> Inl e
      | Inr injected_line \<Rightarrow>
          Inr (EN_HEADER_PREFIX @ injected_line @ EN_HEADER_SUFFIX @ JSON_INSTRUCTION
               @ EN_APPEAL_AND_ITEMS))"

definition build_mandarin_prompt :: "pyenv \<Rightarrow> ustr \<Rightarrow> int \<Rightarrow> error + ustr" where
  "build_mandarin_prompt E g_zh a =
     (case format_str E [(asc ''gender_zh'', FStr g_zh), (asc ''age'', FInt a)]
             ZH_BRACKET_TEMPLATE of
        Inl e \<Rightarrow> Inl e
      | Inr injected_line \<Rightarrow>
          Inr (ZH_PREFIX @ injected_line @ ZH_SUFFIX @ JSON_INSTRUCTION
               @ ZH_APPEAL_AND_ITEMS))"

definition build_questionnaire ::
  "pyenv \<Rightarrow> ustr \<Rightarrow> ustr \<Rightarrow> ustr \<Rightarrow> int \<Rightarrow> error + ustr \<times> ustr" where
  "build_questionnaire E questionnaire_lang g_en g_zh a =
     (if questionnaire_lang = asc ''English'' then
        (case build_english_prompt E g_en a of
           Inl e \<Rightarrow> Inl e
         | Inr p \<Rightarrow> Inr (asc ''English'', p))
      else
        (case build_mandarin_prompt E g_zh a of
           Inl e \<Rightarrow> Inl e
         | Inr p \<Rightarrow> Inr (asc ''Mandarin'', p)))"

section \<open>The questionnaire study: requests and the run\<close>

text \<open>
  The text-generation service is outside the program. A request is its mode (JSON mode
  or plain text) and its messages, each a role and a content; the other arguments are
  the same in every call. The service answers with the content of its reply, or the call
  fails (a transport error, or a reply without text content). Its answer may depend on
  every request made before, so the log of requests is threaded through the run.
\<close>

datatype request = Request (json_mode: bool) (messages: "(ustr \<times> ustr) list")

datatype api_result = ApiError | Content ustr

type_synonym service = "request list \<Rightarrow> request \<Rightarrow> api_result"

definition call_service :: "service \<Rightarrow> request list \<Rightarrow> request \<Rightarrow> api_result \<times> request list" where
  "call_service svc lg rq = (svc lg rq, lg @ [rq])"

text \<open>
  The first \<open>try\<close> block of \<open>chat_completion_json\<close>: the parsed reply, when the call
  succeeds, the content parses, the document is an object and one of its keys starts
  with \<open>reason_\<close> or \<open>item_\<close>. Every exception in the block is caught, and then, as
  when no key is as expected, the function goes on to the fallback.
\<close>

definition expected_key :: "ustr \<Rightarrow> bool" where
  "expected_key k = (startswith k (asc ''reason_'') \<or> startswith k (asc ''item_''))"

definition json_attempt :: "pyenv \<Rightarrow> api_result \<Rightarrow> (ustr \<times> json) list option" where
  "json_attempt E r =
     (case r of
        ApiError \<Rightarrow> None
      | Content txt \<Rightarrow>
          (case json_loads E txt of
             None \<Rightarrow> None
           | Some parsed \<Rightarrow>
               (case parsed of
                  JObj kvs \<Rightarrow> if list_ex (\<lambda>kv. expected_key (fst kv)) kvs then Some kvs else None
                | _ \<Rightarrow> None)))"

text \<open>
  The second \<open>try\<close> block: the two scans of the plain-text reply and the combined
  dictionary. A later match of the same number replaces an earlier one. An exception
  (\<open>int\<close> refusing the digits) leaves the block.
\<close>

fun scan_reasons :: "ustr \<Rightarrow> rmatch_result list \<Rightarrow> (ustr \<times> ustr) list \<Rightarrow> (ustr \<times> ustr) list" where
  "scan_reasons txt [] reasons = reasons"
| "scan_reasons txt (m # ms) reasons =
     scan_reasons txt ms
       (AList.update (asc ''reason_'' @ group txt m 1) (strip (group txt m 2)) reasons)"

fun scan_items ::
  "pyenv \<Rightarrow> ustr \<Rightarrow> rmatch_result list \<Rightarrow> (ustr \<times> int) list \<Rightarrow> error + (ustr \<times> int) list" where
  "scan_items E txt [] items = Inr items"
| "scan_items E txt (m # ms) items =
     (case py_int E (group txt m 2) of
        Inl e \<Rightarrow> Inl e
      | Inr v \<Rightarrow> scan_items E txt ms (AList.update (asc ''item_'' @ group txt m 1) v items))"

definition combine ::
  "(ustr \<times> ustr) list \<Rightarrow> (ustr \<times> int) list \<Rightarrow> (ustr \<times> json) list" where
  "combine reasons items =
     concat (map (\<lambda>i.
        [(asc ''reason_'' @ digits10 i,
          JStr (case map_of reasons (asc ''reason_'' @ digits10 i) of None \<Rightarrow> [] | Some t \<Rightarrow> t)),
         (asc ''item_'' @ digits10 i,
          (case map_of items (asc ''item_'' @ digits10 i) of None \<Rightarrow> JNull | Some v \<Rightarrow> JInt v))])
       [1..<8])"

definition text_attempt :: "pyenv \<Rightarrow> api_result \<Rightarrow> error + (ustr \<times> json) list" where
  "text_attempt E r =
     (case r of
        ApiError \<Rightarrow> Inl TypeError
      | Content txt \<Rightarrow>
          (let reasons = scan_reasons txt (finditer (isword E) (reason_re E) txt) []
           in case scan_items E txt (finditer (isword E) (item_re E) txt) [] of
                Inl e \<Rightarrow> Inl e
              | Inr items \<Rightarrow> Inr (combine reasons items)))"

definition chat_completion_json ::
  "pyenv \<Rightarrow> service \<Rightarrow> request list \<Rightarrow> (ustr \<times> ustr) list
   \<Rightarrow> (ustr \<times> json) list \<times> request list" where
  "chat_completion_json E svc lg msgs =
     (let (r1, lg1) = call_service svc lg (Request True msgs)
      in case json_attempt E r1 of
           Some parsed \<Rightarrow> (parsed, lg1)
         | None \<Rightarrow>
             (let (r2, lg2) = call_service svc lg1 (Request False msgs)
              in case text_attempt E r2 of
                   Inl e \<Rightarrow> ([], lg2)
                 | Inr data \<Rightarrow> (data, lg2)))"

text \<open>A row of the result table.\<close>

record row =
  participant_id :: nat
  native_language :: ustr
  second_language :: ustr
  questionnaire_language :: ustr
  row_age :: int
  row_gender_en :: ustr
  row_gender_zh :: ustr
  reasons :: "(ustr \<times> ustr) list"
  items :: "(ustr \<times> item) list"

definition study_messages :: "ustr \<Rightarrow> (ustr \<times> ustr) list" where
  "study_messages prompt_text =
     [(asc ''system'', SYSTEM_ROLE_PROMPT),
      (asc ''user'', BEGIN_USER @ ANSWER_IN_JSON @ prompt_text)]"

definition make_row ::
  "nat \<Rightarrow> ustr \<Rightarrow> profile \<Rightarrow> (ustr \<times> ustr) list \<Rightarrow> (ustr \<times> item) list \<Rightarrow> row" where
  "make_row i q_label prof rs its =
     \<lparr> participant_id = i,
       native_language = asc ''Mandarin'',
       second_language = asc ''English'',
       questionnaire_language = q_label,
       row_age = age prof,
       row_gender_en = gender_en prof,
       row_gender_zh = gender_zh prof,
       reasons = rs,
       items = its \<rparr>"

text \<open>
  The body of the loop of \<open>run_study\<close> for participant \<open>i\<close> (counted from 1): the row, or
  the exception that leaves the loop, and the log of requests after it.
\<close>

definition study_step ::
  "pyenv \<Rightarrow> service \<Rightarrow> ustr list \<Rightarrow> request list \<Rightarrow> nat \<Rightarrow> profile
   \<Rightarrow> (error + row) \<times> request list" where
  "study_step E svc design lg i prof =
     (if length design \<le> i - 1 then (Inl IndexError, lg)
      else
        (case build_questionnaire E (design ! (i - 1)) (gender_en prof) (gender_zh prof)
                (age prof) of
           Inl e \<Rightarrow> (Inl e, lg)
         | Inr q \<Rightarrow>
             (let (data, lg') = chat_completion_json E svc lg (study_messages (snd q))
              in case coerce_items E data ITEM_KEYS of
                   Inl e \<Rightarrow> (Inl e, lg')
                 | Inr its \<Rightarrow> (Inr (make_row i (fst q) prof (coerce_reasons data) its), lg'))))"

text \<open>
  What a run leaves behind: the exception that ended it (if any), the requests it made,
  the rows it appended, and the rows written to the output files, which are written only
  when the loop has finished.
\<close>

record 'r outcome =
  raised :: "error option"
  calls :: "request list"
  appended :: "'r list"
  written :: "'r list option"

fun study_loop ::
  "pyenv \<Rightarrow> service \<Rightarrow> ustr list \<Rightarrow> nat \<Rightarrow> profile list \<Rightarrow> request list \<Rightarrow> row list
   \<Rightarrow> row outcome" where
  "study_loop E svc design i [] lg rows =
     \<lparr> raised = None, calls = lg, appended = rows, written = Some rows \<rparr>"
| "study_loop E svc design i (prof # profs) lg rows =
     (case study_step E svc design lg i prof of
        (Inl e, lg') \<Rightarrow> \<lparr> raised = Some e, calls = lg', appended = rows, written = None \<rparr>
      | (Inr r, lg') \<Rightarrow> study_loop E svc design (Suc i) profs lg' (rows @ [r]))"

text \<open>
  \<open>run_study\<close> for \<open>N_TARGET = n\<close> (308 in the script). \<open>shuffle\<close> stands for
  \<open>random.shuffle\<close> on the design list, which holds each questionnaire language
  \<open>n // 2\<close> times.
\<close>

definition design_list :: "nat \<Rightarrow> ustr list" where
  "design_list n = replicate (n div 2) (asc ''English'') @ replicate (n div 2) (asc ''Mandarin'')"

definition run_study ::
  "pyenv \<Rightarrow> service \<Rightarrow> (cell \<Rightarrow> error + ustr \<times> ustr) \<Rightarrow> (ustr list \<Rightarrow> ustr list)
   \<Rightarrow> dataframe \<Rightarrow> nat \<Rightarrow> row outcome" where
  "run_study E svc mg shuffle df n =
     (case load_profiles_from_xlsx E mg df n of
        Inl e \<Rightarrow> \<lparr> raised = Some e, calls = [], appended = [], written = None \<rparr>
      | Inr profiles \<Rightarrow> study_loop E svc (shuffle (design_list n)) 1 profiles [] [])"

section \<open>The donation-score simulation\<close>

subsection \<open>Profiles generated by the service\<close>




definition DONATION_EN_1 :: ustr where
  "DONATION_EN_1 =
    concat
     [asc ''You are participating in a survey study. We invite you to review a donat'',
       asc ''ion appeal for Save the Kids, a nonprofit organization dedicated to help'',
       asc ''ing children in need worldwide. Today is September 13, 2025. You are a n'',
       asc ''ative '']"

definition DONATION_EN_2 :: ustr where
  "DONATION_EN_2 =
    asc '' speaker who also speaks fluent ''"

definition DONATION_EN_3 :: ustr where
  "DONATION_EN_3 =
    asc '', currently living in ''"

definition DONATION_EN_4 :: ustr where
  "DONATION_EN_4 =
    asc ''. You are ''"

definition DONATION_EN_5 :: ustr where
  "DONATION_EN_5 =
    asc '', ''"

definition DONATION_EN_6 :: ustr where
  "DONATION_EN_6 =
    concat
     [asc '' years old. Your task is to read the message below carefully and answer '',
       asc ''questions afterwards.'',
       [10, 10],
       asc ''Imagine seeing a boy enduring the pain of hunger and thirst by himself. '',
       asc ''The boy says, '',
       [8220],
       asc ''When I go to bed, I'',
       [8217],
       asc ''m always hungry.'',
       [8221],
       asc '' He is worried about where his mother will get food for tomorrow. Just n'',
       asc ''orth of his home near the country border, a civil war is raging. A few w'',
       asc ''eeks back, he cut a big gash in his toe. You can see the wound is still '',
       asc ''open because he doesn'',
       [39],
       asc ''t have bandages to keep dirt out of the cut. With just a small donation,'',
       asc '' you can provide basic necessities to suffering kids across the globe.'',
       [10, 10],
       asc ''Question: How likely would you be to donate after reading the message ab'',
       asc ''ove? Please use one number to answer this question. 1 = Not at all; 7 = '',
       asc ''Very likely. Explain your answer.'']"

definition DONATION_ID_1 :: ustr where
  "DONATION_ID_1 =
    concat
     [asc ''Anda berpartisipasi dalam sebuah survei. Kami mengundang Anda untuk meni'',
       asc ''njau ajakan donasi dari Save the Kids, sebuah organisasi nirlaba yang di'',
       asc ''dedikasikan untuk membantu anak-anak yang membutuhkan di seluruh dunia. '',
       asc ''Hari ini, 13 September 2025. Anda adalah penutur asli '']"

definition DONATION_ID_2 :: ustr where
  "DONATION_ID_2 =
    asc '' yang juga fasih berbahasa ''"

definition DONATION_ID_3 :: ustr where
  "DONATION_ID_3 =
    asc '', dan saat ini tinggal di ''"

definition DONATION_ID_4 :: ustr where
  "DONATION_ID_4 =
    asc ''. Anda seorang ''"

definition DONATION_ID_5 :: ustr where
  "DONATION_ID_5 =
    asc '', berusia ''"

definition DONATION_ID_6 :: ustr where
  "DONATION_ID_6 =
    concat
     [asc '' tahun. Tugas Anda adalah membaca pesan di bawah ini dengan saksama dan '',
       asc ''menjawab pertanyaan setelahnya.'',
       [10, 10],
       asc ''Bayangkan melihat seorang anak laki-laki yang harus menanggung lapar dan'',
       asc '' haus seorang diri. Anak itu berkata, '',
       [8220],
       asc ''Ketika aku tidur, aku selalu merasa lapar.'',
       [8221],
       asc '' Ia khawatir ibunya akan mendapatkan makanan dari mana untuk esok hari. '',
       asc ''Tepat di utara rumahnya, di dekat perbatasan negara, perang saudara seda'',
       asc ''ng berkecamuk. Beberapa minggu lalu, ia terluka parah di jari kakinya. L'',
       asc ''ukanya masih terbuka karena ia tidak memiliki perban untuk mencegah koto'',
       asc ''ran masuk. Dengan hanya sedikit donasi, Anda dapat membantu menyediakan '',
       asc ''kebutuhan dasar bagi anak-anak yang menderita di seluruh dunia.'',
       [10, 10],
       asc ''Pertanyaan: Seberapa besar kemungkinan Anda akan berdonasi setelah memba'',
       asc ''ca pesan di atas? Silakan gunakan satu angka untuk menjawab pertanyaan i'',
       asc ''ni. 1 = Tidak sama sekali; 7 = Sangat mungkin. Jelaskan jawaban Anda.'']"



subsection \<open>The donation prompt\<close>

text \<open>
  What an f-string puts for a value that came out of \<open>json.loads\<close>. The fixed pieces of
  the two f-strings of \<open>create_donation_prompt\<close> are \<open>DONATION_EN_1\<close> .. \<open>DONATION_EN_6\<close>
  and \<open>DONATION_ID_1\<close> .. \<open>DONATION_ID_6\<close>, in the order of the source.
\<close>

definition fstr :: "pyenv \<Rightarrow> json \<Rightarrow> error + ustr" where
  "fstr E v =
     (case v of
        JNull \<Rightarrow> Inr (asc ''None'')
      | JBool b \<Rightarrow> Inr (if b then asc ''True'' else asc ''False'')
      | JInt n \<Rightarrow> str_int E n
      | JStr t \<Rightarrow> Inr t
      | _ \<Rightarrow> Inr (repr_other E v))"

definition second_language_en :: "ustr \<Rightarrow> ustr" where
  "second_language_en native_lang =
     (if native_lang = asc ''Indonesian'' then asc ''English'' else asc ''Indonesian'')"

definition second_language_id :: "ustr \<Rightarrow> ustr" where
  "second_language_id native_lang =
     (if native_lang = asc ''Indonesia'' then asc ''Inggris'' else asc ''Indonesia'')"

definition create_donation_prompt ::
  "pyenv \<Rightarrow> ustr \<Rightarrow> ustr \<Rightarrow> ustr \<Rightarrow> json \<Rightarrow> json \<Rightarrow> error + ustr" where
  "create_donation_prompt E language native_lang country gender a =
     (case fstr E gender of
        Inl e \<Rightarrow> Inl e
      | Inr g \<Rightarrow>
          (case fstr E a of
             Inl e \<Rightarrow> Inl e
           | Inr y \<Rightarrow>
               (if language = asc ''English'' then
                  Inr (DONATION_EN_1 @ native_lang @ DONATION_EN_2
                       @ second_language_en native_lang @ DONATION_EN_3 @ country
                       @ DONATION_EN_4 @ g @ DONATION_EN_5 @ y @ DONATION_EN_6)
                else
                  Inr (DONATION_ID_1 @ native_lang @ DONATION_ID_2
                       @ second_language_id native_lang @ DONATION_ID_3 @ country
                       @ DONATION_ID_4 @ g @ DONATION_ID_5 @ y @ DONATION_ID_6))))"

subsection \<open>The score of a reply\<close>

text \<open>
  \<open>float(match)\<close> for a text of decimal digits with at most one point: the decimal
  value, rounded to the nearest binary64 number, ties to even. Exponents, signs and the
  other forms \<open>float\<close> reads are not modelled (the pattern never matches them), nor are
  magnitudes outside the normal range of binary64.
\<close>

definition digits_value :: "pyenv \<Rightarrow> ustr \<Rightarrow> nat option" where
  "digits_value E ds =
     foldl (\<lambda>acc c. case acc of None \<Rightarrow> None
                    | Some n \<Rightarrow> map_option (\<lambda>d. 10 * n + d) (uc_decimal E c)) (Some 0) ds"

definition decimal_value :: "pyenv \<Rightarrow> ustr \<Rightarrow> rat option" where
  "decimal_value E m =
     (let ip = takeWhile (\<lambda>c. c \<noteq> 46) m;
          fp = drop 1 (dropWhile (\<lambda>c. c \<noteq> 46) m)
      in if ip = [] \<and> fp = [] then None
         else (case digits_value E ip of
                 None \<Rightarrow> None
               | Some i \<Rightarrow>
                   (case digits_value E fp of
                      None \<Rightarrow> None
                    | Some f \<Rightarrow> Some (of_nat i + of_nat f / 10 ^ length fp))))"

definition round_half_even :: "rat \<Rightarrow> int" where
  "round_half_even x =
     (let f = floor x; d = x - of_int f
      in if d < 1 / 2 then f else if 1 / 2 < d then f + 1 else if even f then f else f + 1)"

definition pow2 :: "int \<Rightarrow> rat" where
  "pow2 z = (if 0 \<le> z then 2 ^ nat z else 1 / 2 ^ nat (- z))"

definition exponent :: "rat \<Rightarrow> int" where
  "exponent q =
     (if 1 \<le> q then bitlen (floor q) - 1
      else (let b = bitlen (floor (1 / q)) in if 1 / q = pow2 (b - 1) then 1 - b else - b))"

definition binary64 :: "rat \<Rightarrow> rat" where
  "binary64 q =
     (if q \<le> 0 then 0
      else of_int (round_half_even (q / pow2 (exponent q - 52))) * pow2 (exponent q - 52))"

definition py_float :: "pyenv \<Rightarrow> ustr \<Rightarrow> error + rat" where
  "py_float E m = (case decimal_value E m of None \<Rightarrow> Inl ValueError | Some q \<Rightarrow> Inr (binary64 q))"

text \<open>
  \<open>findall\<close> with one group gives the text of that group for every match. The loop of
  \<open>extract_score\<close> returns at the first match whose value lies between 1 and 7; a match
  that \<open>float\<close> refuses is passed over.
\<close>

definition findall1 :: "(nat \<Rightarrow> bool) \<Rightarrow> re \<Rightarrow> ustr \<Rightarrow> ustr list" where
  "findall1 w r s = map (\<lambda>m. group s m 1) (finditer w r s)"

fun first_score :: "pyenv \<Rightarrow> ustr list \<Rightarrow> rat option" where
  "first_score E [] = None"
| "first_score E (m # ms) =
     (case py_float E m of
        Inl e \<Rightarrow> first_score E ms
      | Inr score \<Rightarrow> if 1 \<le> score \<and> score \<le> 7 then Some score else first_score E ms)"

definition extract_score :: "pyenv \<Rightarrow> ustr \<Rightarrow> rat option" where
  "extract_score E text = first_score E (findall1 (isword E) (score_re E) text)"

subsection \<open>The run\<close>


record sim_row =
  survey_language :: ustr
  sim_native_language :: ustr
  country :: ustr
  sim_age :: json
  sim_gender :: json
  score :: "rat option"
  response :: ustr

definition conditions :: "(ustr \<times> ustr \<times> ustr) list" where
  "conditions =
     [(asc ''English'', asc ''Indonesian'', asc ''US''),
      (asc ''English'', asc ''Indonesian'', asc ''Indonesia''),
      (asc ''English'', asc ''English'', asc ''US''),
      (asc ''English'', asc ''English'', asc ''Indonesia''),
      (asc ''Indonesian'', asc ''Indonesian'', asc ''US''),
      (asc ''Indonesian'', asc ''Indonesian'', asc ''Indonesia''),
      (asc ''Indonesian'', asc ''English'', asc ''US''),
      (asc ''Indonesian'', asc ''English'', asc ''Indonesia'')]"






section \<open>Reference notions\<close>

text \<open>
  A text of the form \<open>-?\d+\<close>, read directly: an optional minus sign and a non-empty run
  of decimal digits. \<open>int_literal\<close> gives the sign and the digits of such a text,
  \<open>literal_int\<close> the integer they denote.
\<close>

definition digits_nat :: "pyenv \<Rightarrow> ustr \<Rightarrow> nat" where
  "digits_nat E ds = foldl (\<lambda>a c. 10 * a + the (uc_decimal E c)) 0 ds"

definition int_literal :: "pyenv \<Rightarrow> ustr \<Rightarrow> (bool \<times> ustr) option" where
  "int_literal E t =
     (let neg = (t \<noteq> [] \<and> hd t = 45);
          ds = (if neg then tl t else t)
      in if ds \<noteq> [] \<and> list_all (isdecimal E) ds then Some (neg, ds) else None)"

definition literal_int :: "pyenv \<Rightarrow> bool \<times> ustr \<Rightarrow> int" where
  "literal_int E l = (if fst l then - int (digits_nat E (snd l)) else int (digits_nat E (snd l)))"

text \<open>
  The integer-or-decimal tokens of a text, read directly: each maximal run of decimal
  digits, together with a point and a further run of digits when these follow it.
  \<open>spec_extract_score\<close> is the value of the first token whose value lies between 1
  and 7.
\<close>

function number_tokens :: "pyenv \<Rightarrow> ustr \<Rightarrow> ustr list" where
  "number_tokens E [] = []"
| "number_tokens E (c # cs) =
     (if isdecimal E c then
        (if dropWhile (isdecimal E) cs \<noteq> [] \<and> hd (dropWhile (isdecimal E) cs) = 46
            \<and> tl (dropWhile (isdecimal E) cs) \<noteq> []
            \<and> isdecimal E (hd (tl (dropWhile (isdecimal E) cs))) then
           (c # takeWhile (isdecimal E) cs @ [46]
              @ takeWhile (isdecimal E) (tl (dropWhile (isdecimal E) cs)))
             # number_tokens E (dropWhile (isdecimal E) (tl (dropWhile (isdecimal E) cs)))
         else (c # takeWhile (isdecimal E) cs) # number_tokens E (dropWhile (isdecimal E) cs))
      else number_tokens E cs)"
  by pat_completeness auto
termination
proof (relation "measure (\<lambda>(E, s). length s)")
  fix E :: pyenv and c :: nat and cs :: ustr
  have a: "length (dropWhile (isdecimal E) cs) \<le> length cs"
    by (rule length_dropWhile_le)
  have "length (dropWhile (isdecimal E) (tl (dropWhile (isdecimal E) cs)))
          \<le> length (tl (dropWhile (isdecimal E) cs))"
    by (rule length_dropWhile_le)
  with a have b: "length (dropWhile (isdecimal E) (tl (dropWhile (isdecimal E) cs))) \<le> length cs"
    by simp
  show "((E, dropWhile (isdecimal E) (tl (dropWhile (isdecimal E) cs))), (E, c # cs))
          \<in> measure (\<lambda>(E, s). length s)"
    using b by simp
  show "((E, dropWhile (isdecimal E) cs), (E, c # cs)) \<in> measure (\<lambda>(E, s). length s)"
    using a by simp
qed auto

definition in_score_range :: "pyenv \<Rightarrow> ustr \<Rightarrow> bool" where
  "in_score_range E m = (case py_float E m of Inl e \<Rightarrow> False | Inr x \<Rightarrow> 1 \<le> x \<and> x \<le> 7)"

definition spec_extract_score :: "pyenv \<Rightarrow> ustr \<Rightarrow> rat option" where
  "spec_extract_score E text =
     (case filter (in_score_range E) (number_tokens E text) of
        [] \<Rightarrow> None
      | m # ms \<Rightarrow> (case py_float E m of Inl e \<Rightarrow> None | Inr x \<Rightarrow> Some x))"

text \<open>
  The fixed text of each questionnaire template around its injection span: everything
  before the gender label and everything after the age. \<open>int_text\<close> is the decimal
  text of an integer.
\<close>

definition int_text :: "int \<Rightarrow> ustr" where
  "int_text n = (if n < 0 then 45 # digits10 (nat \<bar>n\<bar>) else digits10 (nat \<bar>n\<bar>))"

definition en_before :: ustr where
  "en_before = EN_HEADER_PREFIX @ asc ''You are [''"

definition en_after :: ustr where
  "en_after = asc ''] years old. '' @ EN_HEADER_SUFFIX @ JSON_INSTRUCTION @ EN_APPEAL_AND_ITEMS"

definition zh_before :: ustr where
  "zh_before = ZH_PREFIX @ [24744, 26159, 91]"

definition zh_after :: ustr where
  "zh_after = [23681, 93, 12290] @ ZH_SUFFIX @ JSON_INSTRUCTION @ ZH_APPEAL_AND_ITEMS"

definition template_label :: "ustr \<Rightarrow> ustr" where
  "template_label q = (if q = asc ''English'' then asc ''English'' else asc ''Mandarin'')"

definition template_before :: "ustr \<Rightarrow> ustr" where
  "template_before q = (if q = asc ''English'' then en_before else zh_before)"

definition template_after :: "ustr \<Rightarrow> ustr" where
  "template_after q = (if q = asc ''English'' then en_after else zh_after)"

definition injected_span :: "ustr \<Rightarrow> ustr \<Rightarrow> ustr \<Rightarrow> int \<Rightarrow> ustr" where
  "injected_span q g_en g_zh a =
     (if q = asc ''English'' then g_en @ asc '', '' @ int_text a
      else g_zh @ [65292] @ int_text a)"





section \<open>Sample inputs\<close>

text \<open>
  A sheet of two rows with the columns Age and Gender, whose second Gender cell is
  missing.
\<close>

definition two_rows :: dataframe where
  "two_rows =
     \<lparr> df_columns = [asc ''Age'', asc ''Gender''], df_len = 2,
       df_cell = (\<lambda>r c. if c = asc ''Age'' then Num 30 else if r = 0 then Num 1 else Missing) \<rparr>"









section \<open>Verification\<close>

subsection \<open>Coercion of item fields\<close>

text \<open>
  C10. A JSON boolean bound to an item field passes the integer-instance check and is
  stored as it is: the stored value is the boolean, which counts as 1 or 0, and not
  \<open>None\<close>.
\<close>

theorem bool_item_kept:
  "isinstance_int (JBool b) \<and> coerce_item E (JBool b) = Inr (IBool b)
   \<and> IBool b \<noteq> INone \<and> int_value (IBool b) = Some (if b then 1 else 0)"
  by (simp add: isinstance_int_def coerce_item_def int_value_def)

text \<open>
  C7. The coercion is not total: on a non-finite float \<open>int(v)\<close> raises, and the loop
  over the item keys raises with it.
\<close>

theorem coerce_item_nonfinite_raises:
  "coerce_item E (JFloat PosInf) = Inl OverflowError
   \<and> coerce_item E (JFloat NegInf) = Inl OverflowError
   \<and> coerce_item E (JFloat NaN) = Inl ValueError
   \<and> coerce_items E [(asc ''item_1'', JFloat PosInf)] ITEM_KEYS = Inl OverflowError"
  by (simp add: coerce_item_def isinstance_int_def isinstance_float_def int_of_float_def
      ITEM_KEYS_def dict_get_def asc_def upt_conv_Cons)

subsection \<open>Lemmas on the matcher\<close>

lemma in_star_greedy_class:
  assumes f: "\<And>i c. f (i, c) = (if i < length s \<and> p (s ! i) then [(Suc i, c)] else [])"
  shows "i \<le> length s \<Longrightarrow>
   ((j, c') \<in> set (star_greedy f n (i, c))) =
     (c' = c \<and> i \<le> j \<and> j \<le> i + n \<and> j \<le> length s \<and> (\<forall>k. i \<le> k \<and> k < j \<longrightarrow> p (s ! k)))"
proof (induction n arbitrary: i)
  case 0
  then show ?case by auto
next
  case (Suc n)
  show ?case
  proof (cases "i < length s \<and> p (s ! i)")
    case True
    then have le: "Suc i \<le> length s" by simp
    have split: "\<And>k. i \<le> k \<Longrightarrow> k = i \<or> Suc i \<le> k" by arith
    have all: "(\<forall>k. i \<le> k \<and> k < j \<longrightarrow> p (s ! k)) = (\<forall>k. Suc i \<le> k \<and> k < j \<longrightarrow> p (s ! k))"
      using True split by (metis Suc_leD)
    have "((j, c') \<in> set (star_greedy f (Suc n) (i, c))) =
          ((j, c') \<in> set (star_greedy f n (Suc i, c)) \<or> (j = i \<and> c' = c))"
      using True by (auto simp: f)
    also have "\<dots> = ((c' = c \<and> Suc i \<le> j \<and> j \<le> Suc i + n \<and> j \<le> length s
                        \<and> (\<forall>k. Suc i \<le> k \<and> k < j \<longrightarrow> p (s ! k))) \<or> (j = i \<and> c' = c))"
      by (simp only: Suc.IH [OF le])
    also have "\<dots> = (c' = c \<and> i \<le> j \<and> j \<le> i + Suc n \<and> j \<le> length s
                        \<and> (\<forall>k. i \<le> k \<and> k < j \<longrightarrow> p (s ! k)))"
    proof (cases "j = i")
      case True
      with Suc.prems show ?thesis by auto
    next
      case False
      then have "(i \<le> j) = (Suc i \<le> j)" by arith
      with False all show ?thesis by simp
    qed
    finally show ?thesis .
  next
    case False
    have one: "((j, c') \<in> set (star_greedy f (Suc n) (i, c))) = (j = i \<and> c' = c)"
      using False by (auto simp: f)
    have two: "(c' = c \<and> i \<le> j \<and> j \<le> i + Suc n \<and> j \<le> length s
            \<and> (\<forall>k. i \<le> k \<and> k < j \<longrightarrow> p (s ! k))) = (j = i \<and> c' = c)"
    proof (cases "j = i")
      case True
      with Suc.prems show ?thesis by auto
    next
      case ne: False
      have "\<not> (i \<le> j \<and> j \<le> length s \<and> (\<forall>k. i \<le> k \<and> k < j \<longrightarrow> p (s ! k)))"
      proof
        assume a: "i \<le> j \<and> j \<le> length s \<and> (\<forall>k. i \<le> k \<and> k < j \<longrightarrow> p (s ! k))"
        with ne have "i < j" by simp
        with a have "i < length s" "p (s ! i)" by auto
        with False show False by simp
      qed
      with ne show ?thesis by blast
    qed
    show ?thesis by (rule trans [OF one two [symmetric]])
  qed
qed

lemma rmatch_Chr_state:
  "rmatch w s (Chr p) (i, c) = (if i < length s \<and> p (s ! i) then [(Suc i, c)] else [])"
  by simp

lemma in_star_greedy_chr:
  "i \<le> length s \<Longrightarrow>
   ((j, c') \<in> set (rmatch w s (Star (Chr p)) (i, c))) =
     (c' = c \<and> i \<le> j \<and> j \<le> length s \<and> (\<forall>k. i \<le> k \<and> k < j \<longrightarrow> p (s ! k)))"
  using in_star_greedy_class [of "rmatch w s (Chr p)" s p i j c' "length s" c, OF rmatch_Chr_state]
  by auto

lemma in_plus_chr:
  "i \<le> length s \<Longrightarrow>
   ((j, c') \<in> set (rmatch w s (Plus (Chr p)) (i, c))) =
     (c' = c \<and> i < j \<and> j \<le> length s \<and> (\<forall>k. i \<le> k \<and> k < j \<longrightarrow> p (s ! k)))"
proof -
  assume le: "i \<le> length s"
  show ?thesis
  proof (cases "i < length s \<and> p (s ! i)")
    case True
    then have le': "Suc i \<le> length s" by simp
    have split: "\<And>k. i \<le> k \<Longrightarrow> k = i \<or> Suc i \<le> k" by arith
    have all: "(\<forall>k. i \<le> k \<and> k < j \<longrightarrow> p (s ! k)) = (\<forall>k. Suc i \<le> k \<and> k < j \<longrightarrow> p (s ! k))"
      using True split by (metis Suc_leD)
    have "((j, c') \<in> set (rmatch w s (Plus (Chr p)) (i, c))) =
          ((j, c') \<in> set (rmatch w s (Star (Chr p)) (Suc i, c)))"
      using True by (simp add: Plus_def)
    also have "\<dots> = (c' = c \<and> Suc i \<le> j \<and> j \<le> length s \<and> (\<forall>k. Suc i \<le> k \<and> k < j \<longrightarrow> p (s ! k)))"
      by (rule in_star_greedy_chr [OF le'])
    also have "\<dots> = (c' = c \<and> i < j \<and> j \<le> length s \<and> (\<forall>k. i \<le> k \<and> k < j \<longrightarrow> p (s ! k)))"
      using all by (simp add: Suc_le_eq)
    finally show ?thesis .
  next
    case False
    have one: "((j, c') \<in> set (rmatch w s (Plus (Chr p)) (i, c))) = False"
      using False by (auto simp: Plus_def)
    have two: "(c' = c \<and> i < j \<and> j \<le> length s \<and> (\<forall>k. i \<le> k \<and> k < j \<longrightarrow> p (s ! k))) = False"
      using False by auto
    show ?thesis by (rule trans [OF one two [symmetric]])
  qed
qed


lemma strip_chars_idem: "strip_chars p (strip_chars p s) = strip_chars p s"
proof -
  define u where "u = dropWhile p s"
  define v where "v = rev (dropWhile p (rev u))"
  have v: "strip_chars p s = v" by (simp add: strip_chars_def u_def v_def)
  have 1: "dropWhile p v = v"
  proof (cases "v = []")
    case True
    then show ?thesis by simp
  next
    case False
    then have ne: "dropWhile p (rev u) \<noteq> []" by (simp add: v_def)
    then obtain x where x: "x \<in> set (rev u)" "\<not> p x" by (auto simp: dropWhile_eq_Nil_conv)
    then have une: "u \<noteq> []" by auto
    have "hd v = last (dropWhile p (rev u))" using ne by (simp add: v_def hd_rev)
    also have "\<dots> = last (rev u)" using x by (rule dropWhile_last)
    also have "\<dots> = hd u" using une by (simp add: last_rev)
    finally have "hd v = hd u" .
    moreover have "\<not> p (hd u)" using une unfolding u_def by (rule hd_dropWhile)
    ultimately have "\<not> p (hd v)" by simp
    with False show ?thesis by (cases v) auto
  qed
  have 2: "dropWhile p (rev v) = rev v" by (simp add: v_def)
  show ?thesis unfolding v by (simp add: strip_chars_def 1 2)
qed

lemma strip_last: "strip s = [] \<or> \<not> isspace (last (strip s))"
proof (cases "strip s = []")
  case True
  then show ?thesis by simp
next
  case False
  define u where "u = rev (dropWhile isspace s)"
  have s: "strip s = rev (dropWhile isspace u)" by (simp add: strip_def strip_chars_def u_def)
  with False have ne: "dropWhile isspace u \<noteq> []" by simp
  have "last (strip s) = hd (dropWhile isspace u)" using ne by (simp add: s last_rev)
  moreover have "\<not> isspace (hd (dropWhile isspace u))" using ne by (rule hd_dropWhile)
  ultimately show ?thesis by simp
qed

lemma all_nth_drop:
  assumes "i \<le> length t"
  shows "(\<forall>k. i \<le> k \<and> k < length t \<longrightarrow> p (t ! k)) = list_all p (drop i t)"
proof -
  have a: "list_all p (drop i t) = (\<forall>k. k < length t - i \<longrightarrow> p (t ! (i + k)))"
    using assms by (simp add: list_all_length)
  have b: "(\<forall>k. i \<le> k \<and> k < length t \<longrightarrow> p (t ! k)) = (\<forall>k. k < length t - i \<longrightarrow> p (t ! (i + k)))"
  proof
    assume h: "\<forall>k. i \<le> k \<and> k < length t \<longrightarrow> p (t ! k)"
    show "\<forall>k. k < length t - i \<longrightarrow> p (t ! (i + k))"
    proof (intro allI impI)
      fix k assume "k < length t - i"
      then have "i \<le> i + k \<and> i + k < length t" by arith
      with h show "p (t ! (i + k))" by blast
    qed
  next
    assume h: "\<forall>k. k < length t - i \<longrightarrow> p (t ! (i + k))"
    show "\<forall>k. i \<le> k \<and> k < length t \<longrightarrow> p (t ! k)"
    proof (intro allI impI)
      fix k assume k: "i \<le> k \<and> k < length t"
      then have "k - i < length t - i" by arith
      with h have "p (t ! (i + (k - i)))" by blast
      with k show "p (t ! k)" by simp
    qed
  qed
  show ?thesis by (simp only: a b)
qed

lemma eol_at:
  assumes "t = [] \<or> last t \<noteq> 10"
  shows "(rmatch w t Eol (j, c) \<noteq> []) = (j = length t)"
proof -
  have "\<not> (Suc j = length t \<and> t ! j = 10)"
  proof
    assume a: "Suc j = length t \<and> t ! j = 10"
    then have "t \<noteq> []" by auto
    then have "last t = t ! (length t - 1)" by (rule last_conv_nth)
    with a have "last t = 10" by (metis diff_Suc_1)
    with assms \<open>t \<noteq> []\<close> show False by simp
  qed
  then show ?thesis by auto
qed

lemma digits_eol:
  assumes i: "i \<le> length t" and nl: "t = [] \<or> last t \<noteq> 10"
  shows "(rmatch w t (Seq (Plus (Chr p)) Eol) (i, c) \<noteq> []) = (drop i t \<noteq> [] \<and> list_all p (drop i t))"
proof -
  have "(rmatch w t (Seq (Plus (Chr p)) Eol) (i, c) \<noteq> []) =
        (\<exists>st \<in> set (rmatch w t (Plus (Chr p)) (i, c)). rmatch w t Eol st \<noteq> [])"
    by auto
  also have "\<dots> = (\<exists>j c'. (j, c') \<in> set (rmatch w t (Plus (Chr p)) (i, c)) \<and> rmatch w t Eol (j, c') \<noteq> [])"
    by (auto simp del: rmatch.simps)
  also have "\<dots> = (\<exists>j c'. (c' = c \<and> i < j \<and> j \<le> length t \<and> (\<forall>k. i \<le> k \<and> k < j \<longrightarrow> p (t ! k)))
                          \<and> j = length t)"
    by (simp only: in_plus_chr [OF i] eol_at [OF nl])
  also have "\<dots> = (i < length t \<and> (\<forall>k. i \<le> k \<and> k < length t \<longrightarrow> p (t ! k)))"
    by auto
  also have "\<dots> = (drop i t \<noteq> [] \<and> list_all p (drop i t))"
    using all_nth_drop [OF i, of p] by auto
  finally show ?thesis .
qed

lemma NUM_match_iff:
  assumes nl: "t = [] \<or> last t \<noteq> 10"
  shows "(re_match w (NUM E) t \<noteq> None) =
           ((t \<noteq> [] \<and> hd t = 45 \<and> tl t \<noteq> [] \<and> list_all (isdecimal E) (tl t))
            \<or> (t \<noteq> [] \<and> list_all (isdecimal E) t))"
proof -
  let ?R = "Seq (Plus (Chr (isdecimal E))) Eol"
  have a: "(re_match w (NUM E) t \<noteq> None) = (rmatch w t (NUM E) (0, []) \<noteq> [])"
    by (simp add: re_match_def split: list.splits)
  have b: "rmatch w t (NUM E) (0, []) =
           (if t \<noteq> [] \<and> hd t = 45 then rmatch w t ?R (1, []) else []) @ rmatch w t ?R (0, [])"
    by (cases t) (simp_all add: NUM_def Opt_def Lit_def digit_re_def)
  have c: "(rmatch w t ?R (0, []) \<noteq> []) = (t \<noteq> [] \<and> list_all (isdecimal E) t)"
    using digits_eol [of 0 t w "isdecimal E" "[]", OF _ nl] by simp
  have d: "t \<noteq> [] \<Longrightarrow> (rmatch w t ?R (1, []) \<noteq> []) = (tl t \<noteq> [] \<and> list_all (isdecimal E) (tl t))"
    using digits_eol [of 1 t w "isdecimal E" "[]", OF _ nl] by (cases t) (simp_all add: drop_Suc)
  show ?thesis
    unfolding a b using c d by auto
qed

subsection \<open>Coercion of item fields: what each shape gives\<close>

lemma parse_digits_all:
  "list_all (isdecimal E) ds \<Longrightarrow> uc_decimal E 95 = None \<Longrightarrow> ds \<noteq> [] \<or> prev \<Longrightarrow>
   parse_digits E prev acc n ds =
     Some (foldl (\<lambda>a c. 10 * a + the (uc_decimal E c)) acc ds, n + length ds)"
proof (induction ds arbitrary: prev acc n)
  case Nil
  then show ?case by simp
next
  case (Cons c cs)
  from Cons.prems obtain d where d: "uc_decimal E c = Some d" by (auto simp: isdecimal_def)
  with Cons.prems have c: "c \<noteq> 95" by auto
  have "parse_digits E True (10 * acc + d) (Suc n) cs =
        Some (foldl (\<lambda>a c. 10 * a + the (uc_decimal E c)) (10 * acc + d) cs, Suc n + length cs)"
    using Cons.prems by (intro Cons.IH) auto
  with c d show ?case by simp
qed

lemma py_int_literal:
  assumes s43: "uc_decimal E 43 = None" and s95: "uc_decimal E 95 = None"
    and lit: "int_literal E (strip t) = Some l" and lim: "\<not> over_limit E (length (snd l))"
  shows "py_int E (strip t) = Inr (literal_int E l)"
proof -
  define u where "u = strip t"
  have su: "strip u = u" by (simp add: u_def strip_def strip_chars_idem)
  obtain neg ds where l: "l = (neg, ds)" by (cases l)
  from lit have ds: "ds \<noteq> []" "list_all (isdecimal E) ds" "neg = (u \<noteq> [] \<and> hd u = 45)"
    "ds = (if neg then tl u else u)"
    by (auto simp: int_literal_def Let_def l u_def split: if_splits)
  have pn: "parse_nat E ds = Some (digits_nat E ds)"
    using parse_digits_all [OF ds(2) s95, of False 0 0] ds(1) lim
    by (simp add: parse_nat_def digits_nat_def l)
  have pu: "py_int E u =
      (case (case u of
               [] \<Rightarrow> None
             | c # cs \<Rightarrow>
                 if c = 45 then map_option (\<lambda>v. - int v) (parse_nat E cs)
                 else if c = 43 then map_option int (parse_nat E cs)
                 else map_option int (parse_nat E u)) of
         None \<Rightarrow> Inl ValueError | Some v \<Rightarrow> Inr v)"
    by (simp add: py_int_def su Let_def)
  show ?thesis
  proof (cases neg)
    case True
    with ds obtain cs where u: "u = 45 # cs" "ds = cs" by (cases u) auto
    show ?thesis
      unfolding u_def [symmetric] pu using pn u True
      by (simp add: literal_int_def l)
  next
    case False
    with ds have u: "u = ds" by simp
    from ds(1) obtain c cs where cs: "ds = c # cs" by (cases ds) auto
    with ds(2) have "isdecimal E c" by simp
    with s43 have "c \<noteq> 43" by (auto simp: isdecimal_def)
    moreover from False ds(3) u cs have "c \<noteq> 45" by simp
    ultimately show ?thesis
      unfolding u_def [symmetric] pu using pn u cs False
      by (simp add: literal_int_def l)
  qed
qed

lemma NUM_literal:
  assumes s45: "uc_decimal E 45 = None"
  shows "(re_match w (NUM E) (strip t) \<noteq> None) = (int_literal E (strip t) \<noteq> None)"
proof -
  define u where "u = strip t"
  have "u = [] \<or> \<not> isspace (last u)" unfolding u_def by (rule strip_last)
  then have nl: "u = [] \<or> last u \<noteq> 10" by (auto simp: isspace_def)
  have nd: "\<not> isdecimal E 45" using s45 by (simp add: isdecimal_def)
  have "(int_literal E u \<noteq> None) =
          ((u \<noteq> [] \<and> hd u = 45 \<and> tl u \<noteq> [] \<and> list_all (isdecimal E) (tl u))
            \<or> (u \<noteq> [] \<and> list_all (isdecimal E) u))"
  proof (cases u)
    case Nil
    then show ?thesis by (simp add: int_literal_def)
  next
    case (Cons c cs)
    with nd show ?thesis by (auto simp: int_literal_def Let_def)
  qed
  then show ?thesis
    unfolding u_def [symmetric] by (simp only: NUM_match_iff [OF nl])
qed

lemma trunc_toward_zero:
  "\<bar>of_int (trunc q)\<bar> \<le> \<bar>q\<bar> \<and> \<bar>q\<bar> < \<bar>of_int (trunc q)\<bar> + 1
   \<and> (0 \<le> q \<longrightarrow> 0 \<le> trunc q) \<and> (q \<le> 0 \<longrightarrow> trunc q \<le> 0)"
proof (cases "q < 0")
  case True
  then have "0 \<le> floor (- q)" by simp
  moreover have "of_int (floor (- q)) \<le> - q" "- q < of_int (floor (- q)) + 1" by linarith+
  ultimately show ?thesis using True by (simp add: trunc_def)
next
  case False
  then have "0 \<le> floor q" by simp
  moreover have "of_int (floor q) \<le> q" "q < of_int (floor q) + 1" by linarith+
  ultimately show ?thesis using False by (auto simp: trunc_def)
qed

text \<open>
  C3 (as amended). When the digit characters of the Unicode database are not the signs
  or the underscore, the coercion of an item field maps an integer to itself, a boolean
  to itself, a finite float to its truncation toward zero, a string that after trimming
  is an optional minus sign and decimal digits (no more digits than the conversion limit
  allows) to the integer they denote, and every other string, \<open>None\<close>, a missing key,
  an object and an array to \<open>None\<close>.
\<close>

theorem item_coercion:
  assumes "uc_decimal E 43 = None" and "uc_decimal E 45 = None" and "uc_decimal E 95 = None"
  shows "coerce_item E (JInt n) = Inr (IInt n)
     \<and> coerce_item E (JBool b) = Inr (IBool b)
     \<and> coerce_item E (JFloat (Finite q)) = Inr (IInt (trunc q))
     \<and> \<bar>of_int (trunc q)\<bar> \<le> \<bar>q\<bar> \<and> \<bar>q\<bar> < \<bar>of_int (trunc q)\<bar> + 1
     \<and> (0 \<le> q \<longrightarrow> 0 \<le> trunc q) \<and> (q \<le> 0 \<longrightarrow> trunc q \<le> 0)
     \<and> (\<forall>l. int_literal E (strip t) = Some l \<and> \<not> over_limit E (length (snd l))
            \<longrightarrow> coerce_item E (JStr t) = Inr (IInt (literal_int E l)))
     \<and> (int_literal E (strip t) = None \<longrightarrow> coerce_item E (JStr t) = Inr INone)
     \<and> coerce_item E JNull = Inr INone
     \<and> coerce_item E (JObj kvs) = Inr INone
     \<and> coerce_item E (JArr xs) = Inr INone
     \<and> (map_of d k = None \<longrightarrow> coerce_item E (dict_get d k) = Inr INone)"
proof -
  have str1: "\<forall>l. int_literal E (strip t) = Some l \<and> \<not> over_limit E (length (snd l))
            \<longrightarrow> coerce_item E (JStr t) = Inr (IInt (literal_int E l))"
  proof (intro allI impI)
    fix l assume a: "int_literal E (strip t) = Some l \<and> \<not> over_limit E (length (snd l))"
    then have m: "re_match (isword E) (NUM E) (strip t) \<noteq> None"
      using NUM_literal [OF assms(2)] by simp
    have "py_int E (strip t) = Inr (literal_int E l)"
      using py_int_literal [OF assms(1) assms(3)] a by blast
    with m show "coerce_item E (JStr t) = Inr (IInt (literal_int E l))"
      by (simp add: coerce_item_def isinstance_int_def isinstance_float_def isinstance_str_def)
  qed
  have str2: "int_literal E (strip t) = None \<longrightarrow> coerce_item E (JStr t) = Inr INone"
    using NUM_literal [OF assms(2), of "isword E" t]
    by (simp add: coerce_item_def isinstance_int_def isinstance_float_def isinstance_str_def)
  have rest: "coerce_item E (JInt n) = Inr (IInt n)" "coerce_item E (JBool b) = Inr (IBool b)"
    "coerce_item E (JFloat (Finite q)) = Inr (IInt (trunc q))"
    "coerce_item E JNull = Inr INone" "coerce_item E (JObj kvs) = Inr INone"
    "coerce_item E (JArr xs) = Inr INone"
    "map_of d k = None \<longrightarrow> coerce_item E (dict_get d k) = Inr INone"
    by (simp_all add: coerce_item_def isinstance_int_def isinstance_float_def isinstance_str_def
        int_of_float_def dict_get_def)
  show ?thesis using str1 str2 rest trunc_toward_zero [of q] by blast
qed

theorem item_coercion_witness:
  "uc_decimal basic_latin 43 = None \<and> uc_decimal basic_latin 45 = None
   \<and> uc_decimal basic_latin 95 = None
   \<and> int_literal basic_latin (strip (asc ''3'')) = Some (False, asc ''3'')
   \<and> \<not> over_limit basic_latin (length (asc ''3''))
   \<and> int_literal basic_latin (strip (asc ''abc'')) = None
   \<and> coerce_items basic_latin
         [(asc ''item_1'', JStr (asc ''3'')), (asc ''item_2'', JFloat (Finite 4)),
          (asc ''item_3'', JStr (asc ''abc''))] ITEM_KEYS =
       Inr [(asc ''item_1'', IInt 3), (asc ''item_2'', IInt 4), (asc ''item_3'', INone),
            (asc ''item_4'', INone), (asc ''item_5'', INone), (asc ''item_6'', INone),
            (asc ''item_7'', INone)]"
proof -
  have h: "uc_decimal basic_latin 43 = None" "uc_decimal basic_latin 45 = None"
    "uc_decimal basic_latin 95 = None"
    by (simp_all add: basic_latin_def)
  have s3: "strip [51] = [51]" and sabc: "strip [97, 98, 99] = [97, 98, 99]"
    by (simp_all add: strip_def strip_chars_def isspace_def)
  have l3: "int_literal basic_latin (strip (asc ''3'')) = Some (False, asc ''3'')"
    by (simp add: asc_def s3 int_literal_def isdecimal_def basic_latin_def)
  have labc: "int_literal basic_latin (strip (asc ''abc'')) = None"
    by (simp add: asc_def sabc int_literal_def isdecimal_def basic_latin_def)
  have lim: "\<not> over_limit basic_latin (length (asc ''3''))"
    by (simp add: over_limit_def asc_def)
  have v3: "literal_int basic_latin (False, asc ''3'') = 3"
    by (simp add: literal_int_def digits_nat_def basic_latin_def asc_def)
  have t4: "trunc 4 = 4"
    by (simp add: trunc_def)
  have "\<forall>l. int_literal basic_latin (strip (asc ''3'')) = Some l
             \<and> \<not> over_limit basic_latin (length (snd l))
           \<longrightarrow> coerce_item basic_latin (JStr (asc ''3'')) = Inr (IInt (literal_int basic_latin l))"
    using item_coercion [OF h, of 0 True 0 "asc ''3''" "[]" "[]" "[]" "[]"] by blast
  then have c1: "coerce_item basic_latin (JStr (asc ''3'')) = Inr (IInt 3)"
    using l3 lim v3 by (metis snd_conv)
  have c2: "coerce_item basic_latin (JFloat (Finite 4)) = Inr (IInt 4)"
    using item_coercion [OF h, of 0 True 4 "[]" "[]" "[]" "[]" "[]"] t4 by metis
  have c3: "coerce_item basic_latin (JStr (asc ''abc'')) = Inr INone"
    using item_coercion [OF h, of 0 True 0 "asc ''abc''" "[]" "[]" "[]" "[]"] labc by blast
  have c4: "coerce_item basic_latin JNull = Inr INone"
    using item_coercion [OF h, of 0 True 0 "[]" "[]" "[]" "[]" "[]"] by blast
  have "coerce_items basic_latin
         [(asc ''item_1'', JStr (asc ''3'')), (asc ''item_2'', JFloat (Finite 4)),
          (asc ''item_3'', JStr (asc ''abc''))] ITEM_KEYS =
       Inr [(asc ''item_1'', IInt 3), (asc ''item_2'', IInt 4), (asc ''item_3'', INone),
            (asc ''item_4'', INone), (asc ''item_5'', INone), (asc ''item_6'', INone),
            (asc ''item_7'', INone)]"
    by (simp add: ITEM_KEYS_def upt_conv_Cons dict_get_def asc_def c1 [unfolded asc_def, simplified]
        c2 c3 [unfolded asc_def, simplified] c4)
  with h l3 lim labc show ?thesis by blast
qed

text \<open>
  C3 as stated fails on a shape it does not list: a boolean is not defaulted to
  \<open>None\<close>.
\<close>

theorem item_coercion_counterexample:
  "coerce_item basic_latin (JBool True) \<noteq> Inr INone"
  by (simp add: coerce_item_def isinstance_int_def)

subsection \<open>The score of a reply\<close>

lemma first_score_filter:
  "first_score E ms =
     (case filter (in_score_range E) ms of
        [] \<Rightarrow> None
      | m # ms' \<Rightarrow> (case py_float E m of Inl e \<Rightarrow> None | Inr x \<Rightarrow> Some x))"
  by (induction ms) (auto simp: in_score_range_def split: sum.splits)

lemma first_score_range: "first_score E ms = Some x \<Longrightarrow> 1 \<le> x \<and> x \<le> 7"
  by (induction ms) (auto split: sum.splits if_splits)

lemma first_score_None: "(first_score E ms = None) = (\<forall>m \<in> set ms. \<not> in_score_range E m)"
  by (induction ms) (auto simp: in_score_range_def split: sum.splits)

text \<open>
  The loop of \<open>extract_score\<close> takes the first match of the pattern whose value lies
  between 1 and 7, whatever the pattern matches.
\<close>

lemma extract_score_first_in_range:
  "extract_score E text =
     (case filter (in_score_range E) (findall1 (isword E) (score_re E) text) of
        [] \<Rightarrow> None
      | m # ms \<Rightarrow> (case py_float E m of Inl e \<Rightarrow> None | Inr x \<Rightarrow> Some x))"
  unfolding extract_score_def by (rule first_score_filter)

text \<open>
  C2. The claim is right and the code misses it. In \<open>8.5\<close> the only integer-or-decimal
  token is 8.5, whose value is out of range, so the score should be \<open>None\<close>; the pattern
  finds a word boundary behind the point, matches the digit 5 there, and the score is 5.
  The same happens in \<open>0.5\<close>, while \<open>5.5\<close> is read whole and \<open>18\<close> gives no score, as
  the pattern intends for every number.
\<close>

theorem extract_score_takes_fraction_digit:
  "extract_score basic_latin (asc ''8.5'') = Some 5
   \<and> number_tokens basic_latin (asc ''8.5'') = [asc ''8.5'']
   \<and> decimal_value basic_latin (asc ''8.5'') = Some (17 / 2)
   \<and> spec_extract_score basic_latin (asc ''8.5'') = None
   \<and> extract_score basic_latin (asc ''0.5'') = Some 5
   \<and> spec_extract_score basic_latin (asc ''0.5'') = None
   \<and> extract_score basic_latin (asc ''5.5'') = Some (11 / 2)
   \<and> extract_score basic_latin (asc ''18'') = None"
  by code_simp

subsection \<open>The questionnaire prompts\<close>

lemma str_int_ok:
  "length (digits10 (nat \<bar>a\<bar>)) \<le> 640 \<Longrightarrow> str_int E a = Inr (int_text a)"
  by (simp add: str_int_def int_text_def Let_def over_limit_def del: digits10.simps)

lemma format_en:
  "length (digits10 (nat \<bar>a\<bar>)) \<le> 640 \<Longrightarrow>
   format_str E [(asc ''gender_en'', FStr g), (asc ''age'', FInt a)] EN_BRACKET_TEMPLATE
     = Inr (asc ''You are ['' @ g @ asc '', '' @ int_text a @ asc ''] years old. '')"
  by (simp add: EN_BRACKET_TEMPLATE_def asc_def plain_name_def positional_def format_value_def
      str_int_ok del: digits10.simps)

lemma format_zh:
  "length (digits10 (nat \<bar>a\<bar>)) \<le> 640 \<Longrightarrow>
   format_str E [(asc ''gender_zh'', FStr g), (asc ''age'', FInt a)] ZH_BRACKET_TEMPLATE
     = Inr ([24744, 26159, 91] @ g @ [65292] @ int_text a @ [23681, 93, 12290])"
  by (simp add: ZH_BRACKET_TEMPLATE_def asc_def plain_name_def positional_def format_value_def
      str_int_ok del: digits10.simps)

lemma build_english_prompt_render:
  assumes "length (digits10 (nat \<bar>a\<bar>)) \<le> 640"
  shows "build_english_prompt E g_en a =
           Inr (en_before @ (g_en @ asc '', '' @ int_text a) @ en_after)"
  by (simp only: build_english_prompt_def format_en [OF assms] sum.case en_before_def
      en_after_def append_assoc)

lemma build_mandarin_prompt_render:
  assumes "length (digits10 (nat \<bar>a\<bar>)) \<le> 640"
  shows "build_mandarin_prompt E g_zh a =
           Inr (zh_before @ (g_zh @ [65292] @ int_text a) @ zh_after)"
  by (simp only: build_mandarin_prompt_def format_zh [OF assms] sum.case zh_before_def
      zh_after_def append_assoc)

lemma build_questionnaire_render:
  assumes "length (digits10 (nat \<bar>a\<bar>)) \<le> 640"
  shows "build_questionnaire E q g_en g_zh a =
           Inr (template_label q,
                template_before q @ injected_span q g_en g_zh a @ template_after q)"
  by (simp only: build_questionnaire_def build_english_prompt_render [OF assms]
      build_mandarin_prompt_render [OF assms] sum.case template_label_def
      template_before_def template_after_def injected_span_def if_distrib
      split: if_split) simp

text \<open>
  C1. For every profile whose age is written with at most 640 digits (so that the
  interpreter formats it whatever its digit limit), each of the two templates renders to
  its fixed text before the span, the injected span (gender label, separator, age), and
  its fixed text after the span. The two fixed texts depend on the template alone, so two
  prompts rendered from the same template agree on every character outside the span.
\<close>

theorem prompt_fixed_outside_span:
  assumes "length (digits10 (nat \<bar>a\<bar>)) \<le> 640"
  shows "build_english_prompt E g_en a = Inr (en_before @ (g_en @ asc '', '' @ int_text a) @ en_after)
     \<and> build_mandarin_prompt E g_zh a = Inr (zh_before @ (g_zh @ [65292] @ int_text a) @ zh_after)
     \<and> build_questionnaire E q g_en g_zh a =
         Inr (template_label q,
              template_before q @ injected_span q g_en g_zh a @ template_after q)"
  using build_english_prompt_render [OF assms] build_mandarin_prompt_render [OF assms]
    build_questionnaire_render [OF assms]
  by blast

theorem prompt_fixed_outside_span_witness:
  "length (digits10 (nat \<bar>35\<bar>)) \<le> 640
   \<and> build_questionnaire basic_latin (asc ''English'') (asc ''male'') [30007] 35 =
       Inr (asc ''English'', en_before @ asc ''male, 35'' @ en_after)
   \<and> build_questionnaire basic_latin (asc ''Mandarin'') (asc ''male'') [30007] 35 =
       Inr (asc ''Mandarin'', zh_before @ ([30007, 65292] @ asc ''35'') @ zh_after)"
proof -
  have h: "length (digits10 (nat \<bar>35\<bar>)) \<le> 640" by simp
  have t: "int_text 35 = asc ''35''" by code_simp
  have ne: "asc ''Mandarin'' \<noteq> asc ''English''" by (simp add: asc_def)
  have a: "build_questionnaire basic_latin (asc ''English'') (asc ''male'') [30007] 35 =
       Inr (asc ''English'', en_before @ asc ''male, 35'' @ en_after)"
    using prompt_fixed_outside_span [OF h, of basic_latin "asc ''male''" "[30007]" "asc ''English''"]
    by (simp add: template_label_def template_before_def template_after_def injected_span_def t
        del: digits10.simps)
       (simp add: asc_def)
  have b: "build_questionnaire basic_latin (asc ''Mandarin'') (asc ''male'') [30007] 35 =
       Inr (asc ''Mandarin'', zh_before @ ([30007, 65292] @ asc ''35'') @ zh_after)"
    using prompt_fixed_outside_span [OF h, of basic_latin "asc ''male''" "[30007]" "asc ''Mandarin''"] ne
    by (simp add: template_label_def template_before_def template_after_def injected_span_def t
        del: digits10.simps)
  from h a b show ?thesis by blast
qed

subsection \<open>The donation prompt\<close>

text \<open>
  C4. The English template names the complement of the native language. The Indonesian
  template compares the native language with \<open>Indonesia\<close>, while the conditions pass
  \<open>Indonesian\<close>: for the condition (Indonesian, Indonesian, US) its prompt names
  Indonesia, not Inggris, as the second language.
\<close>

theorem indonesian_template_second_language:
  "second_language_en (asc ''Indonesian'') = asc ''English''
   \<and> second_language_en (asc ''English'') = asc ''Indonesian''
   \<and> second_language_id (asc ''English'') = asc ''Indonesia''
   \<and> second_language_id (asc ''Indonesian'') = asc ''Indonesia''
   \<and> (asc ''Indonesian'', asc ''Indonesian'', asc ''US'') \<in> set conditions
   \<and> create_donation_prompt basic_latin (asc ''Indonesian'') (asc ''Indonesian'') (asc ''US'')
         (JStr (asc ''male'')) (JInt 30) =
       Inr (DONATION_ID_1 @ asc ''Indonesian'' @ DONATION_ID_2 @ asc ''Indonesia''
            @ DONATION_ID_3 @ asc ''US'' @ DONATION_ID_4 @ asc ''male'' @ DONATION_ID_5
            @ asc ''30'' @ DONATION_ID_6)
   \<and> DONATION_ID_2 = asc '' yang juga fasih berbahasa ''"
proof -
  have s: "str_int basic_latin 30 = Inr (asc ''30'')"
    by code_simp
  have ne: "asc ''Indonesian'' \<noteq> asc ''English''" "asc ''Indonesian'' \<noteq> asc ''Indonesia''"
    "asc ''English'' \<noteq> asc ''Indonesian''" "asc ''English'' \<noteq> asc ''Indonesia''"
    by (simp_all add: asc_def)
  have c: "(asc ''Indonesian'', asc ''Indonesian'', asc ''US'') \<in> set conditions"
    by (simp add: conditions_def)
  have p: "create_donation_prompt basic_latin (asc ''Indonesian'') (asc ''Indonesian'') (asc ''US'')
         (JStr (asc ''male'')) (JInt 30) =
       Inr (DONATION_ID_1 @ asc ''Indonesian'' @ DONATION_ID_2 @ asc ''Indonesia''
            @ DONATION_ID_3 @ asc ''US'' @ DONATION_ID_4 @ asc ''male'' @ DONATION_ID_5
            @ asc ''30'' @ DONATION_ID_6)"
    by (simp add: create_donation_prompt_def fstr_def s ne second_language_id_def)
  show ?thesis
    using ne c p by (simp add: second_language_en_def second_language_id_def DONATION_ID_2_def)
qed

subsection \<open>The gender codes\<close>

text \<open>
  C8. The mapping of gender codes gives each code from 1 to 4 its fixed pair of labels
  and rejects every other code with an error.
\<close>

theorem map_gender_codes:
  "map_gender 1 = Inr (asc ''male'', [30007])
   \<and> map_gender 2 = Inr (asc ''female'', [22899])
   \<and> map_gender 3 = Inr (asc ''non-binary'', [37117, 19981, 26159, 47, 31532, 19977, 24615, 21035])
   \<and> map_gender 4 = Inr (asc ''prefer not to say'', [19981, 36879, 38706])
   \<and> (code \<in> {1, 2, 3, 4} \<longrightarrow> (\<exists>l. map_gender code = Inr l))
   \<and> (code \<notin> {1, 2, 3, 4} \<longrightarrow> map_gender code = Inl ValueError)"
  by (auto simp: map_gender_def)

theorem map_gender_codes_witness:
  "(2::int) \<in> {1, 2, 3, 4} \<and> map_gender 2 = Inr (asc ''female'', [22899])
   \<and> (5::int) \<notin> {1, 2, 3, 4} \<and> map_gender 5 = Inl ValueError
   \<and> (0::int) \<notin> {1, 2, 3, 4} \<and> map_gender 0 = Inl ValueError"
  using map_gender_codes [of 2] map_gender_codes [of 5] map_gender_codes [of 0] by simp

subsection \<open>The spreadsheet of profiles\<close>

lemma column_has_na_iff:
  "column_has_na df c = (\<exists>r<df_len df. df_cell df r c = Missing)"
  by (auto simp: column_has_na_def list_ex_iff isna_def)

lemma load_rejects:
  assumes "df_len df \<noteq> n
     \<or> (\<exists>c_age c_gender r. pick_col E df AGE_NAMES = Some c_age
           \<and> pick_col E df GENDER_NAMES = Some c_gender \<and> r < df_len df
           \<and> (df_cell df r c_age = Missing \<or> df_cell df r c_gender = Missing))"
  shows "load_profiles_from_xlsx E mg df n = Inl ValueError"
  using assms
  by (auto simp: load_profiles_from_xlsx_def Let_def column_has_na_iff)

text \<open>
  C6. When the number of rows differs from \<open>n\<close>, or a cell of the resolved Age or
  Gender column is missing, \<open>load_profiles_from_xlsx\<close> raises \<open>ValueError\<close>, and
  \<open>run_study\<close> ends with that error without a request to the service, a row or an
  output file.
\<close>

theorem invalid_file_fails_before_any_call:
  assumes "df_len df \<noteq> n
     \<or> (\<exists>c_age c_gender r. pick_col E df AGE_NAMES = Some c_age
           \<and> pick_col E df GENDER_NAMES = Some c_gender \<and> r < df_len df
           \<and> (df_cell df r c_age = Missing \<or> df_cell df r c_gender = Missing))"
  shows "load_profiles_from_xlsx E mg df n = Inl ValueError
     \<and> run_study E svc mg shuffle df n =
         \<lparr> raised = Some ValueError, calls = [], appended = [], written = None \<rparr>"
  using load_rejects [OF assms, of mg] by (simp add: run_study_def)

lemma two_rows_len: "df_len two_rows \<noteq> 3" "df_len two_rows \<noteq> 1" "(1::nat) < df_len two_rows"
  by (simp_all add: two_rows_def)
lemma two_rows_age_col: "pick_col basic_latin two_rows AGE_NAMES = Some (asc ''Age'')"
  by (simp add: pick_col_def two_rows_def AGE_NAMES_def basic_latin_def asc_def ascii_lower_def strip_def strip_chars_def isspace_def)
lemma two_rows_gender_col: "pick_col basic_latin two_rows GENDER_NAMES = Some (asc ''Gender'')"
  by (simp add: pick_col_def two_rows_def GENDER_NAMES_def basic_latin_def asc_def ascii_lower_def strip_def strip_chars_def isspace_def)
lemma two_rows_missing: "df_cell two_rows 1 (asc ''Gender'') = Missing"
  by (simp add: two_rows_def asc_def)


theorem invalid_file_fails_before_any_call_witness:
  "df_len two_rows \<noteq> 3
   \<and> run_study basic_latin (\<lambda>lg rq. Content []) gender_of_cell (\<lambda>d. d) two_rows 3 =
       \<lparr> raised = Some ValueError, calls = [], appended = [], written = None \<rparr>
   \<and> df_len two_rows \<noteq> 1
   \<and> run_study basic_latin (\<lambda>lg rq. Content []) gender_of_cell (\<lambda>d. d) two_rows 1 =
       \<lparr> raised = Some ValueError, calls = [], appended = [], written = None \<rparr>
   \<and> pick_col basic_latin two_rows AGE_NAMES = Some (asc ''Age'')
   \<and> pick_col basic_latin two_rows GENDER_NAMES = Some (asc ''Gender'')
   \<and> df_cell two_rows 1 (asc ''Gender'') = Missing
   \<and> run_study basic_latin (\<lambda>lg rq. Content []) gender_of_cell (\<lambda>d. d) two_rows 2 =
       \<lparr> raised = Some ValueError, calls = [], appended = [], written = None \<rparr>"
proof -
  have h3: "df_len two_rows \<noteq> 3
     \<or> (\<exists>c_age c_gender r. pick_col basic_latin two_rows AGE_NAMES = Some c_age
           \<and> pick_col basic_latin two_rows GENDER_NAMES = Some c_gender \<and> r < df_len two_rows
           \<and> (df_cell two_rows r c_age = Missing \<or> df_cell two_rows r c_gender = Missing))"
    using two_rows_len(1) by (rule disjI1)
  have h1: "df_len two_rows \<noteq> 1
     \<or> (\<exists>c_age c_gender r. pick_col basic_latin two_rows AGE_NAMES = Some c_age
           \<and> pick_col basic_latin two_rows GENDER_NAMES = Some c_gender \<and> r < df_len two_rows
           \<and> (df_cell two_rows r c_age = Missing \<or> df_cell two_rows r c_gender = Missing))"
    using two_rows_len(2) by (rule disjI1)
  have "\<exists>c_age c_gender r. pick_col basic_latin two_rows AGE_NAMES = Some c_age
           \<and> pick_col basic_latin two_rows GENDER_NAMES = Some c_gender \<and> r < df_len two_rows
           \<and> (df_cell two_rows r c_age = Missing \<or> df_cell two_rows r c_gender = Missing)"
    using two_rows_age_col two_rows_gender_col two_rows_missing two_rows_len(3) by (intro exI conjI disjI2)
  then have h2: "df_len two_rows \<noteq> 2
     \<or> (\<exists>c_age c_gender r. pick_col basic_latin two_rows AGE_NAMES = Some c_age
           \<and> pick_col basic_latin two_rows GENDER_NAMES = Some c_gender \<and> r < df_len two_rows
           \<and> (df_cell two_rows r c_age = Missing \<or> df_cell two_rows r c_gender = Missing))"
    by (rule disjI2)
  note r3 = conjunct2 [OF invalid_file_fails_before_any_call [OF h3]]
  note r1 = conjunct2 [OF invalid_file_fails_before_any_call [OF h1]]
  note r2 = conjunct2 [OF invalid_file_fails_before_any_call [OF h2]]
  show ?thesis
    by (intro conjI two_rows_len two_rows_age_col two_rows_gender_col two_rows_missing r3 r1 r2)
qed

subsection \<open>The fallback of the requester\<close>


lemma chat_json_mode:
  assumes "json_attempt E (svc lg (Request True msgs)) = Some parsed"
  shows "chat_completion_json E svc lg msgs = (parsed, lg @ [Request True msgs])"
  using assms by (simp add: chat_completion_json_def call_service_def)



lemma coerce_item_plain:
  "v = JNull \<or> (\<exists>n. v = JInt n) \<Longrightarrow>
   coerce_item E v = Inr (case v of JInt n \<Rightarrow> IInt n | _ \<Rightarrow> INone)"
  by (auto simp: coerce_item_def isinstance_int_def isinstance_float_def isinstance_str_def)

lemma dict_get_cases: "dict_get d k = JNull \<or> (k, dict_get d k) \<in> set d"
  by (auto simp: dict_get_def dest: map_of_SomeD split: option.splits)

lemma coerce_items_plain:
  assumes "\<And>k v. (k, v) \<in> set data \<Longrightarrow> k \<in> set ITEM_KEYS \<Longrightarrow> v = JNull \<or> (\<exists>n. v = JInt n)"
  shows "set ks \<subseteq> set ITEM_KEYS \<Longrightarrow>
         coerce_items E data ks =
           Inr (map (\<lambda>k. (k, case dict_get data k of JInt n \<Rightarrow> IInt n | _ \<Rightarrow> INone)) ks)"
proof (induction ks)
  case Nil
  show ?case by simp
next
  case (Cons k ks)
  then have k: "k \<in> set ITEM_KEYS" and ks: "set ks \<subseteq> set ITEM_KEYS" by auto
  have "dict_get data k = JNull \<or> (\<exists>n. dict_get data k = JInt n)"
    using dict_get_cases [of data k] assms [OF _ k] by blast
  then have "coerce_item E (dict_get data k) =
               Inr (case dict_get data k of JInt n \<Rightarrow> IInt n | _ \<Rightarrow> INone)"
    by (rule coerce_item_plain)
  with Cons.IH [OF ks] show ?case by simp
qed


lemma coerce_items_empty:
  "coerce_items E [] ITEM_KEYS = Inr (map (\<lambda>k. (k, INone)) ITEM_KEYS)"
  using coerce_items_plain [of "[]" ITEM_KEYS E] by (simp add: dict_get_def)



lemma json_attempt_None:
  "json_attempt E ApiError = None"
  "json_loads E txt = None \<Longrightarrow> json_attempt E (Content txt) = None"
  "json_loads E txt = Some (JObj kvs) \<Longrightarrow> \<not> list_ex (\<lambda>kv. expected_key (fst kv)) kvs \<Longrightarrow>
     json_attempt E (Content txt) = None"
  by (simp_all add: json_attempt_def)






subsection \<open>The order of the rows\<close>
























end
